theory Spec2Isabelle
  imports Main "HOL-Library.AList"
begin

section \<open>Values\<close>

text \<open>
  The storage service stores \<^verbatim>\<open>data: any\<close>. The values that flow through it are
  JSON values: \<^verbatim>\<open>null\<close>, booleans, numbers, strings, arrays and objects. Numbers are
  taken to be integers, and an object is the list of its own properties; a property
  holding \<^verbatim>\<open>undefined\<close> is the property being absent, which is what a property read and
  \<^verbatim>\<open>JSON.stringify\<close> both see. On these values \<^verbatim>\<open>JSON.parse(JSON.stringify(v))\<close> is
  \<open>v\<close>.
\<close>

datatype jsval =
    JNull
  | JBool bool
  | JNum int
  | JStr string
  | JArr "jsval list"
  | JObj "(string \<times> jsval) list"

text \<open>JavaScript truthiness, as used by \<^verbatim>\<open>!x\<close>, \<^verbatim>\<open>x && y\<close> and \<^verbatim>\<open>x || y\<close>.\<close>

fun truthy :: "jsval \<Rightarrow> bool" where
  "truthy JNull = False"
| "truthy (JBool b) = b"
| "truthy (JNum n) = (n \<noteq> 0)"
| "truthy (JStr s) = (s \<noteq> [])"
| "truthy (JArr xs) = True"
| "truthy (JObj kvs) = True"

text \<open>
  A property read \<^verbatim>\<open>v.k\<close> on a value that is not \<^verbatim>\<open>null\<close>; \<open>None\<close> is
  \<^verbatim>\<open>undefined\<close>. The properties read by the code (\<^verbatim>\<open>userId\<close>, \<^verbatim>\<open>profile\<close>,
  \<^verbatim>\<open>weight\<close>, \<^verbatim>\<open>notes\<close>, \<^verbatim>\<open>city\<close>, \<^verbatim>\<open>notifications\<close>) are not built-in
  properties of strings, numbers or arrays, so only objects have them.
\<close>

fun getProp :: "jsval \<Rightarrow> string \<Rightarrow> jsval option" where
  "getProp (JObj kvs) k = map_of kvs k"
| "getProp v k = None"

fun truthy_opt :: "jsval option \<Rightarrow> bool" where
  "truthy_opt None = False"
| "truthy_opt (Some v) = truthy v"

text \<open>\<^verbatim>\<open>a || b\<close> where \<open>a\<close> may be \<^verbatim>\<open>undefined\<close>.\<close>

fun js_or :: "jsval \<Rightarrow> jsval \<Rightarrow> jsval" where
  "js_or a b = (if truthy a then a else b)"

section \<open>storageService.ts: data\<close>

datatype action = Create | Update | Delete

text \<open>
  \<^verbatim>\<open>interface SyncQueue { id; action; collection; data; timestamp; retryCount }\<close>.
  The fields \<^verbatim>\<open>id\<close>, \<^verbatim>\<open>data\<close> and \<^verbatim>\<open>timestamp\<close> carry the suffix \<open>_item\<close>: \<open>id\<close> is a
  HOL constant and the other two are fields of \<open>CachedData\<close> as well.
\<close>

record SyncQueue =
  id_item :: string
  action :: action
  collection :: string
  data_item :: jsval
  timestamp_item :: int
  retryCount :: int

text \<open>
  What a cache entry holds: an application value, or the array of sync-queue items kept
  under \<^verbatim>\<open>SYNC_QUEUE_KEY\<close> (\<^verbatim>\<open>get<SyncQueue[]>\<close>).
\<close>

datatype stored = Val jsval | QueueVal "SyncQueue list"

text \<open>\<^verbatim>\<open>interface CachedData { data: any; timestamp: number; expiry?: number }\<close>\<close>

record CachedData =
  data :: stored
  timestamp :: int
  expiry :: "int option"

text \<open>
  A string held by \<^verbatim>\<open>localStorage\<close>: \<open>Json c\<close> is the JSON text of the entry \<open>c\<close>
  (what \<^verbatim>\<open>JSON.stringify(cachedData)\<close> writes and \<^verbatim>\<open>JSON.parse\<close> reads back);
  \<open>Raw s\<close> is any other string, such as the empty string, text that does not parse, or
  a value written by another application.
\<close>

datatype ls_item = Json CachedData | Raw string

text \<open>
  The service with the browser store it uses. \<open>isStorageAvailable\<close> and
  \<open>inMemoryStorage\<close> are the fields of the class; \<open>localStorage\<close> is the browser's
  store, shared with every other script of the origin, and \<open>setItemThrows\<close> says
  whether \<^verbatim>\<open>localStorage.setItem\<close> throws (quota exceeded, access denied). Both stores
  keep insertion order, as \<^verbatim>\<open>Map\<close> and \<^verbatim>\<open>localStorage\<close> do.
\<close>

record StorageService =
  isStorageAvailable :: bool
  localStorage :: "(string \<times> ls_item) list"
  setItemThrows :: bool
  inMemoryStorage :: "(string \<times> CachedData) list"

definition PREFIX :: string where
  "PREFIX = ''fitness_app_''"

definition SYNC_QUEUE_KEY :: string where
  "SYNC_QUEUE_KEY = ''sync_queue''"

text \<open>\<^verbatim>\<open>key.startsWith(p)\<close>\<close>

definition startsWith :: "string \<Rightarrow> string \<Rightarrow> bool" where
  "startsWith key p = (take (length p) key = p)"

section \<open>storageService.ts: the key-value cache\<close>

text \<open>
  \<^verbatim>\<open>Date.now()\<close> is the argument \<open>now\<close> of every operation that reads the clock.
  An operation returns its result and the service after it.
\<close>

text \<open>
  \<^verbatim>\<open>set(key, value, expiryHours?)\<close>, named \<open>set_cached\<close> because \<open>set\<close> is a HOL
  constant. \<open>value = None\<close> is \<^verbatim>\<open>undefined\<close>, \<open>expiryHours = None\<close> an omitted
  argument; \<^verbatim>\<open>expiryHours ? ... : undefined\<close> reads \<open>0\<close> hours as no expiry. Hours are
  whole numbers, as in every call the code makes (48, 24, 12, 1 and 168). When
  \<^verbatim>\<open>localStorage.setItem\<close> throws, the \<^verbatim>\<open>catch\<close> block writes the entry to
  \<open>inMemoryStorage\<close> and returns \<^verbatim>\<open>true\<close>; \<open>isStorageAvailable\<close> is not changed.
  \<^verbatim>\<open>Map.set\<close> does not throw, so the inner \<^verbatim>\<open>catch\<close> is never entered.
\<close>

definition set_cached :: "StorageService \<Rightarrow> string \<Rightarrow> stored option \<Rightarrow> int option \<Rightarrow> int
    \<Rightarrow> bool \<times> StorageService" where
  "set_cached s key value expiryHours now =
    (case value of
       None \<Rightarrow> (False, s)
     | Some v \<Rightarrow>
        if key = [] then (False, s)
        else
          let expiry = (case expiryHours of
                          None \<Rightarrow> None
                        | Some h \<Rightarrow> if h \<noteq> 0 then Some (now + h * 60 * 60 * 1000) else None);
              cachedData = \<lparr>data = v, timestamp = now, expiry = expiry\<rparr>
          in
            if isStorageAvailable s then
              (if setItemThrows s
               then (True, s\<lparr>inMemoryStorage :=
                              AList.update (PREFIX @ key) cachedData (inMemoryStorage s)\<rparr>)
               else (True, s\<lparr>localStorage :=
                              AList.update (PREFIX @ key) (Json cachedData) (localStorage s)\<rparr>))
            else (True, s\<lparr>inMemoryStorage :=
                             AList.update (PREFIX @ key) cachedData (inMemoryStorage s)\<rparr>))"

text \<open>\<^verbatim>\<open>remove(key)\<close>\<close>

definition remove :: "StorageService \<Rightarrow> string \<Rightarrow> bool \<times> StorageService" where
  "remove s key =
    (if key = [] then (False, s)
     else if isStorageAvailable s
       then (True, s\<lparr>localStorage := AList.delete (PREFIX @ key) (localStorage s)\<rparr>)
       else (True, s\<lparr>inMemoryStorage := AList.delete (PREFIX @ key) (inMemoryStorage s)\<rparr>))"

text \<open>
  The entry \<^verbatim>\<open>get\<close> reads for a full key (lines 97 to 105): from \<^verbatim>\<open>localStorage\<close>
  when it is available, where an absent item, an empty string or text that is not an
  entry gives nothing, and from \<open>inMemoryStorage\<close> otherwise.
\<close>

definition readEntry :: "StorageService \<Rightarrow> string \<Rightarrow> CachedData option" where
  "readEntry s fullKey =
    (if isStorageAvailable s
     then (case map_of (localStorage s) fullKey of
             Some (Json c) \<Rightarrow> Some c
           | Some (Raw t) \<Rightarrow> None
           | None \<Rightarrow> None)
     else map_of (inMemoryStorage s) fullKey)"

text \<open>
  \<^verbatim>\<open>get(key)\<close>. The result \<open>Val JNull\<close> is \<^verbatim>\<open>null\<close>: JavaScript does not tell an
  absent entry from an entry whose data is \<^verbatim>\<open>null\<close>, and neither does the model. The
  test \<^verbatim>\<open>cachedData.expiry && Date.now() > cachedData.expiry\<close> reads an expiry of \<open>0\<close>
  as no expiry.
\<close>

definition get :: "StorageService \<Rightarrow> string \<Rightarrow> int \<Rightarrow> stored \<times> StorageService" where
  "get s key now =
    (if key = [] then (Val JNull, s)
     else
       case readEntry s (PREFIX @ key) of
         None \<Rightarrow> (Val JNull, s)
       | Some cachedData \<Rightarrow>
           (case expiry cachedData of
              Some e \<Rightarrow>
                if e \<noteq> 0 \<and> now > e then (Val JNull, snd (remove s key))
                else (data cachedData, s)
            | None \<Rightarrow> (data cachedData, s)))"

text \<open>
  \<^verbatim>\<open>clear()\<close>: the keys of the store in use that start with \<open>PREFIX\<close> are collected
  and removed one by one.
\<close>

definition clear :: "StorageService \<Rightarrow> bool \<times> StorageService" where
  "clear s =
    (if isStorageAvailable s
     then
       (let keys = filter (\<lambda>key. startsWith key PREFIX) (map fst (localStorage s))
        in (True, s\<lparr>localStorage := fold AList.delete keys (localStorage s)\<rparr>))
     else
       (let keys = filter (\<lambda>key. startsWith key PREFIX) (map fst (inMemoryStorage s))
        in (True, s\<lparr>inMemoryStorage := fold AList.delete keys (inMemoryStorage s)\<rparr>)))"


section \<open>storageService.ts: the cache of application data\<close>

text \<open>
  A sync-queue item as the JavaScript object it is, for a reader that takes a stored
  queue for a plain value.
\<close>

fun action_name :: "action \<Rightarrow> string" where
  "action_name Create = ''create''"
| "action_name Update = ''update''"
| "action_name Delete = ''delete''"

definition item_js :: "SyncQueue \<Rightarrow> jsval" where
  "item_js item =
    JObj [(''id'', JStr (id_item item)),
          (''action'', JStr (action_name (action item))),
          (''collection'', JStr (collection item)),
          (''data'', data_item item),
          (''timestamp'', JNum (timestamp_item item)),
          (''retryCount'', JNum (retryCount item))]"

fun js_of :: "stored \<Rightarrow> jsval" where
  "js_of (Val v) = v"
| "js_of (QueueVal q) = JArr (map item_js q)"

text \<open>
  \<^verbatim>\<open>s.toLowerCase()\<close> on a string given by the bytes of its UTF-8 encoding. The
  letters A to Z (bytes 65 to 90) move up by 32. The accented capitals of Latin-1, U+00C0
  to U+00DE without the multiplication sign U+00D7, are the byte 195 followed by a byte
  from 128 to 158 other than 151; their small letters have the second byte 32 higher.
  City names in other scripts are left as they are.
\<close>

definition lowerAscii :: "char \<Rightarrow> char" where
  "lowerAscii c =
    (let n = (of_char c :: nat) in if 65 \<le> n \<and> n \<le> 90 then char_of (n + 32) else c)"

fun toLowerCase :: "string \<Rightarrow> string" where
  "toLowerCase [] = []"
| "toLowerCase [c] = [lowerAscii c]"
| "toLowerCase (c # d # s) =
    (if (of_char c :: nat) = 195 \<and> 128 \<le> (of_char d :: nat) \<and> (of_char d :: nat) \<le> 158
        \<and> (of_char d :: nat) \<noteq> 151
     then c # char_of ((of_char d :: nat) + 32) # toLowerCase s
     else lowerAscii c # toLowerCase (d # s))"

text \<open>\<^verbatim>\<open>Array.isArray(v)\<close>\<close>

fun isArray :: "jsval \<Rightarrow> bool" where
  "isArray (JArr xs) = True"
| "isArray v = False"

definition cacheUserProfile :: "StorageService \<Rightarrow> string \<Rightarrow> jsval \<Rightarrow> int \<Rightarrow> StorageService" where
  "cacheUserProfile s userId profile now =
    (if userId = [] \<or> \<not> truthy profile then s
     else snd (set_cached s (''user_profile_'' @ userId) (Some (Val profile)) (Some 48) now))"

definition getCachedUserProfile :: "StorageService \<Rightarrow> string \<Rightarrow> int \<Rightarrow> jsval \<times> StorageService" where
  "getCachedUserProfile s userId now =
    (if userId = [] then (JNull, s)
     else let (v, s') = get s (''user_profile_'' @ userId) now in (js_of v, s'))"

definition cacheWeatherData :: "StorageService \<Rightarrow> string \<Rightarrow> jsval \<Rightarrow> int \<Rightarrow> StorageService" where
  "cacheWeatherData s city weather now =
    (if city = [] \<or> \<not> truthy weather then s
     else snd (set_cached s (''weather_'' @ toLowerCase city) (Some (Val weather)) (Some 1) now))"

definition getCachedWeatherData :: "StorageService \<Rightarrow> string \<Rightarrow> int \<Rightarrow> jsval \<times> StorageService" where
  "getCachedWeatherData s city now =
    (if city = [] then (JNull, s)
     else let (v, s') = get s (''weather_'' @ toLowerCase city) now in (js_of v, s'))"

definition cacheSessions :: "StorageService \<Rightarrow> string \<Rightarrow> jsval \<Rightarrow> int \<Rightarrow> StorageService" where
  "cacheSessions s userId sessions now =
    (if userId = [] \<or> \<not> isArray sessions then s
     else snd (set_cached s (''sessions_'' @ userId) (Some (Val sessions)) (Some 24) now))"

definition getCachedSessions :: "StorageService \<Rightarrow> string \<Rightarrow> int \<Rightarrow> jsval \<times> StorageService" where
  "getCachedSessions s userId now =
    (if userId = [] then (JNull, s)
     else let (v, s') = get s (''sessions_'' @ userId) now
          in ((if isArray (js_of v) then js_of v else JNull), s'))"

definition cacheStats :: "StorageService \<Rightarrow> string \<Rightarrow> jsval \<Rightarrow> int \<Rightarrow> StorageService" where
  "cacheStats s userId stats now =
    (if userId = [] \<or> \<not> truthy stats then s
     else snd (set_cached s (''stats_'' @ userId) (Some (Val stats)) (Some 12) now))"

definition getCachedStats :: "StorageService \<Rightarrow> string \<Rightarrow> int \<Rightarrow> jsval \<times> StorageService" where
  "getCachedStats s userId now =
    (if userId = [] then (JNull, s)
     else let (v, s') = get s (''stats_'' @ userId) now in (js_of v, s'))"

section \<open>storageService.ts: the sync queue\<close>

text \<open>
  \<^verbatim>\<open>getSyncQueue()\<close>: \<^verbatim>\<open>Array.isArray(queue) ? queue : []\<close>. The entry under
  \<open>SYNC_QUEUE_KEY\<close> is typed \<^verbatim>\<open>SyncQueue[]\<close>, and only \<^verbatim>\<open>addToSyncQueue\<close> and
  \<^verbatim>\<open>syncPendingData\<close> write it, so the array found there is a queue; any other value,
  \<^verbatim>\<open>null\<close> for an absent entry included, gives the empty queue. Reading may evict an
  expired entry.
\<close>

definition getSyncQueue :: "StorageService \<Rightarrow> int \<Rightarrow> SyncQueue list \<times> StorageService" where
  "getSyncQueue s now =
    (case get s SYNC_QUEUE_KEY now of
       (QueueVal queue, s') \<Rightarrow> (queue, s')
     | (Val v, s') \<Rightarrow> ([], s'))"

text \<open>
  \<^verbatim>\<open>addToSyncQueue(action, collection, data)\<close>. \<open>newId\<close> is the value of
  \<^verbatim>\<open>Date.now().toString() + Math.random().toString(36)\<close>. An \<open>action\<close> is one of three
  non-empty strings, so \<^verbatim>\<open>!action\<close> is false.
\<close>

definition addToSyncQueue :: "StorageService \<Rightarrow> action \<Rightarrow> string \<Rightarrow> jsval \<Rightarrow> string \<Rightarrow> int
    \<Rightarrow> StorageService" where
  "addToSyncQueue s act coll payload newId now =
    (if coll = [] \<or> \<not> truthy payload then s
     else
       let (syncQueue, s1) = getSyncQueue s now;
           queueItem = \<lparr>id_item = newId, action = act, collection = coll,
                        data_item = payload, timestamp_item = now, retryCount = 0\<rparr>
       in snd (set_cached s1 SYNC_QUEUE_KEY (Some (QueueVal (syncQueue @ [queueItem]))) None now))"

section \<open>The remote data service\<close>

text \<open>
  The calls \<^verbatim>\<open>firestoreService\<close> receives, with their arguments. The service is
  \<^verbatim>\<open>any\<close> for the caller: it answers a call, given the calls it has received so
  far, by resolving with a value or by rejecting.
\<close>

datatype remote_call =
    SaveUserProfile jsval jsval
  | AddActivitySession jsval
  | AddWeightEntry jsval jsval "jsval option"
  | GetUserProfile string
  | GetUserSessions string int
  | GetWeightHistory string int
  | GetUserStats string

datatype response = Rejected | Resolved jsval

type_synonym firestoreService = "remote_call list \<Rightarrow> remote_call \<Rightarrow> response"

datatype error =
    InvalidSyncParameters
  | UnsupportedCollection string
  | TypeError
  | RemoteError

section \<open>storageService.ts: the reconciler\<close>

text \<open>
  The \<^verbatim>\<open>switch\<close> of \<^verbatim>\<open>executeSyncItem\<close>: the remote write an item leads to.
  \<open>Inr None\<close> is a branch that ends at \<^verbatim>\<open>break\<close> with nothing called;
  reading \<^verbatim>\<open>item.data.userId\<close> when \<^verbatim>\<open>item.data\<close> is \<^verbatim>\<open>null\<close> throws a TypeError.
\<close>

definition remoteWrite :: "SyncQueue \<Rightarrow> error + remote_call option" where
  "remoteWrite item =
    (let d = data_item item in
     if collection item = ''users'' then
       (if action item = Update then
          (if d = JNull then Inl TypeError
           else case (getProp d ''userId'', getProp d ''profile'') of
                  (Some u, Some p) \<Rightarrow>
                    if truthy u \<and> truthy p then Inr (Some (SaveUserProfile u p)) else Inr None
                | (Some u, None) \<Rightarrow> Inr None
                | (None, x) \<Rightarrow> Inr None)
        else Inr None)
     else if collection item = ''sessions'' then
       (if action item = Create then
          (if d = JNull then Inl TypeError
           else if truthy_opt (getProp d ''userId'') then Inr (Some (AddActivitySession d))
           else Inr None)
        else Inr None)
     else if collection item = ''weights'' then
       (if action item = Create then
          (if d = JNull then Inl TypeError
           else case (getProp d ''userId'', getProp d ''weight'') of
                  (Some u, Some w) \<Rightarrow>
                    if truthy u \<and> truthy w
                    then Inr (Some (AddWeightEntry u w (getProp d ''notes'')))
                    else Inr None
                | (Some u, None) \<Rightarrow> Inr None
                | (None, x) \<Rightarrow> Inr None)
        else Inr None)
     else Inl (UnsupportedCollection (collection item)))"

text \<open>
  \<^verbatim>\<open>executeSyncItem(item, firestoreService)\<close>: throws when the service is missing,
  else performs the write the \<^verbatim>\<open>switch\<close> selects and awaits it. \<open>log\<close> is the list
  of calls the remote service has received.
\<close>

definition executeSyncItem :: "SyncQueue \<Rightarrow> firestoreService option \<Rightarrow> remote_call list
    \<Rightarrow> (error + unit) \<times> remote_call list" where
  "executeSyncItem item svc log =
    (case svc of
       None \<Rightarrow> (Inl InvalidSyncParameters, log)
     | Some f \<Rightarrow>
        (case remoteWrite item of
           Inl e \<Rightarrow> (Inl e, log)
         | Inr None \<Rightarrow> (Inr (), log)
         | Inr (Some c) \<Rightarrow>
             (case f log c of
                Rejected \<Rightarrow> (Inl RemoteError, log @ [c])
              | Resolved v \<Rightarrow> (Inr (), log @ [c]))))"

text \<open>
  The body of the \<^verbatim>\<open>for\<close> loop of \<^verbatim>\<open>syncPendingData\<close> once
  \<^verbatim>\<open>executeSyncItem\<close> has settled: \<^verbatim>\<open>syncedCount++\<close> when it resolved; in the
  \<^verbatim>\<open>catch\<close> block \<^verbatim>\<open>item.retryCount++\<close>, and the item is pushed on
  \<open>remainingQueue\<close> when \<^verbatim>\<open>item.retryCount < 3\<close>.
\<close>

definition settle :: "SyncQueue \<Rightarrow> error + unit \<Rightarrow> nat \<Rightarrow> SyncQueue list \<Rightarrow> nat \<times> SyncQueue list" where
  "settle item outcome syncedCount remainingQueue =
    (case outcome of
       Inr u \<Rightarrow> (syncedCount + 1, remainingQueue)
     | Inl e \<Rightarrow>
        (let item' = item\<lparr>retryCount := retryCount item + 1\<rparr> in
         if retryCount item' < 3 then (syncedCount, remainingQueue @ [item'])
         else (syncedCount, remainingQueue)))"

text \<open>
  The \<^verbatim>\<open>for\<close> loop of \<^verbatim>\<open>syncPendingData\<close> over the snapshot, with its two
  accumulators \<open>syncedCount\<close> and \<open>remainingQueue\<close>.
\<close>

fun syncLoop :: "firestoreService option \<Rightarrow> SyncQueue list \<Rightarrow> nat \<Rightarrow> SyncQueue list
    \<Rightarrow> remote_call list \<Rightarrow> nat \<times> SyncQueue list \<times> remote_call list" where
  "syncLoop svc [] syncedCount remainingQueue log = (syncedCount, remainingQueue, log)"
| "syncLoop svc (item # rest) syncedCount remainingQueue log =
    (let (outcome, log') = executeSyncItem item svc log;
         (syncedCount', remainingQueue') = settle item outcome syncedCount remainingQueue
     in syncLoop svc rest syncedCount' remainingQueue' log')"

text \<open>
  \<^verbatim>\<open>syncPendingData(firestoreService)\<close>. \<open>online\<close> is the value of
  \<^verbatim>\<open>this.isOnline()\<close>, that is of \<^verbatim>\<open>navigator.onLine\<close>. The result is the returned
  count, the service and the calls the remote has received. The clock is read as \<open>now\<close>
  for the whole call: the time of the final write only becomes the \<open>timestamp\<close> of the
  queue entry, which has no expiry.
\<close>

definition syncPendingData :: "StorageService \<Rightarrow> bool \<Rightarrow> firestoreService option \<Rightarrow> int
    \<Rightarrow> remote_call list \<Rightarrow> nat \<times> StorageService \<times> remote_call list" where
  "syncPendingData s online svc now log =
    (if \<not> online then (0, s, log)
     else
       let (syncQueue, s1) = getSyncQueue s now in
       if syncQueue = [] then (0, s1, log)
       else
         let (syncedCount, remainingQueue, log') = syncLoop svc syncQueue 0 [] log;
             s2 = snd (set_cached s1 SYNC_QUEUE_KEY (Some (QueueVal remainingQueue)) None now)
         in (syncedCount, s2, log'))"

section \<open>App.tsx: the state of the application shell\<close>

text \<open>
  The in-app notifications the modelled handlers show, by what they report:
  \<open>SaveWarning\<close> is the warning "Erreur de sauvegarde", \<open>SessionDone\<close> the success
  message of a completed session, \<open>SessionWarning\<close> the warning "Erreur d'enregistrement",
  \<open>GoalAchieved n\<close> the call \<^verbatim>\<open>notifyGoalAchieved('weekly', n)\<close>.
\<close>

datatype notification =
    SaveWarning
  | SessionDone
  | SessionWarning
  | GoalAchieved nat

text \<open>
  The React state of \<^verbatim>\<open>FitnessApp\<close> that the data routines read and write, together
  with the singletons they use: \<open>storage\<close> is \<^verbatim>\<open>storageService\<close>, \<open>remoteLog\<close> the
  calls \<^verbatim>\<open>firestoreService\<close> has received and \<open>notifications\<close> what
  \<^verbatim>\<open>notificationService\<close> has shown. \<open>authUser\<close> is the \<^verbatim>\<open>uid\<close> of the signed-in
  user, or \<open>None\<close> for \<^verbatim>\<open>null\<close>; \<open>user\<close>, \<open>weather\<close> and \<open>stats\<close> are an object or
  \<open>JNull\<close>; \<open>sessions\<close> is typed \<^verbatim>\<open>ActivitySession[]\<close>. \<open>isOnline\<close> is the React
  state of that name, not \<^verbatim>\<open>navigator.onLine\<close>. A handler reads the state of the
  render it was created in, and its \<^verbatim>\<open>set...\<close> calls apply in order. A handler
  reads the clock as \<open>now\<close> from its start to its end.
\<close>

record App =
  authUser :: "string option"
  user :: jsval
  weather :: jsval
  sessions :: "jsval list"
  stats :: jsval
  weightHistory :: jsval
  loading :: bool
  isOnline :: bool
  storage :: StorageService
  remoteLog :: "remote_call list"
  notifications :: "notification list"

text \<open>\<^verbatim>\<open>weatherService.getCurrentWeather(city)\<close>: resolves with the weather or rejects.\<close>

type_synonym weatherService = "string \<Rightarrow> response"

text \<open>The elements of a value put into \<open>sessions\<close>, which is an array or \<^verbatim>\<open>null\<close>.\<close>

definition elems :: "jsval \<Rightarrow> jsval list" where
  "elems v = (case v of JArr xs \<Rightarrow> xs | _ \<Rightarrow> [])"

text \<open>\<^verbatim>\<open>userData.city || 'Paris'\<close>, where \<^verbatim>\<open>city?: string\<close>.\<close>

definition cityOf :: "jsval \<Rightarrow> string" where
  "cityOf profile =
    (case getProp profile ''city'' of
       Some (JStr c) \<Rightarrow> if c \<noteq> [] then c else ''Paris''
     | _ \<Rightarrow> ''Paris'')"

text \<open>
  The properties of an object literal \<^verbatim>\<open>{k1: v1, ...}\<close> whose values may be
  \<^verbatim>\<open>undefined\<close>: those are left out.
\<close>

definition objProps :: "(string \<times> jsval option) list \<Rightarrow> (string \<times> jsval) list" where
  "objProps props =
    List.map_filter (\<lambda>(k, v). case v of None \<Rightarrow> None | Some x \<Rightarrow> Some (k, x)) props"

text \<open>
  The profile \<^verbatim>\<open>loadUserData\<close> creates when there is none. The two accented letters
  are the bytes of their UTF-8 encoding.
\<close>

definition defaultProfile :: jsval where
  "defaultProfile =
    JObj [(''name'', JStr ''Utilisateur''),
          (''weight'', JNum 70),
          (''height'', JNum 170),
          (''age'', JNum 30),
          (''goal'', JStr (''Am'' @ [char_of (195 :: nat), char_of (169 :: nat)] @ ''liorer ma forme'')),
          (''maxDuration'', JNum 60),
          (''preferredActivity'', JStr ''marche''),
          (''restDays'', JArr [JStr ''dimanche'']),
          (''city'', JStr ''Paris''),
          (''notifications'', JBool True),
          (''weeklyGoal'', JNum 5),
          (''fitnessLevel'', JStr (''d'' @ [char_of (195 :: nat), char_of (169 :: nat)] @ ''butant''))]"

section \<open>App.tsx: loadUserData\<close>

text \<open>
  \<^verbatim>\<open>loadUserData(userId)\<close> returns a promise: \<open>Inr ()\<close> when it resolves, \<open>Inl e\<close>
  when it rejects. The whole routine reads the clock as \<open>now\<close>. It is split at its
  control points: \<open>loadCatch\<close> is the \<^verbatim>\<open>catch\<close> block followed by \<^verbatim>\<open>finally\<close>,
  \<open>loadShow\<close> runs from \<^verbatim>\<open>setUser(userData)\<close> to the end, \<open>loadRest\<close> from
  \<^verbatim>\<open>if (!userData)\<close>.
\<close>

text \<open>
  The \<^verbatim>\<open>catch\<close> block: the cached profile, sessions and statistics are put into the
  state where the cache has them, then \<^verbatim>\<open>throw err\<close>; \<^verbatim>\<open>finally\<close> clears
  \<open>loading\<close>.
\<close>

definition loadCatch :: "App \<Rightarrow> string \<Rightarrow> int \<Rightarrow> (error + unit) \<times> App" where
  "loadCatch app userId now =
    (let (cachedProfile, s1) = getCachedUserProfile (storage app) userId now;
         (cachedSessions, s2) = getCachedSessions s1 userId now;
         (cachedStats, s3) = getCachedStats s2 userId now
     in (Inl RemoteError,
         app\<lparr>storage := s3,
             user := (if truthy cachedProfile then cachedProfile else user app),
             sessions := (if truthy cachedSessions then elems cachedSessions else sessions app),
             stats := (if truthy cachedStats then cachedStats else stats app),
             loading := False\<rparr>))"

text \<open>
  From \<^verbatim>\<open>setUser(userData)\<close> on: the state is set, the cached weather is shown, and
  when online the weather is fetched inside its own \<^verbatim>\<open>try\<close>, whose \<^verbatim>\<open>catch\<close>
  only logs.
\<close>

definition loadShow :: "App \<Rightarrow> weatherService \<Rightarrow> jsval \<Rightarrow> jsval \<Rightarrow> jsval \<Rightarrow> int
    \<Rightarrow> (error + unit) \<times> App" where
  "loadShow app ws userData userSessions userStats now =
    (let a1 = app\<lparr>user := userData,
                   sessions := elems (js_or userSessions (JArr [])),
                   stats := userStats\<rparr>;
         city = cityOf userData;
         (cachedWeather, s1) = getCachedWeatherData (storage a1) city now;
         a2 = a1\<lparr>storage := s1,
                  weather := (if truthy cachedWeather then cachedWeather else weather a1)\<rparr>;
         a3 = (if isOnline app
               then (case ws city of
                       Rejected \<Rightarrow> a2
                     | Resolved weatherData \<Rightarrow>
                         a2\<lparr>weather := weatherData,
                            storage := cacheWeatherData (storage a2) city weatherData now\<rparr>)
               else a2)
     in (Inr (), a3\<lparr>loading := False\<rparr>))"

text \<open>
  From \<^verbatim>\<open>if (!userData)\<close> on: without a profile the default one is saved remotely
  when online (a rejection goes to the \<^verbatim>\<open>catch\<close> block) and cached.
\<close>

definition loadRest :: "App \<Rightarrow> firestoreService \<Rightarrow> weatherService \<Rightarrow> string \<Rightarrow> jsval \<Rightarrow> jsval
    \<Rightarrow> jsval \<Rightarrow> int \<Rightarrow> (error + unit) \<times> App" where
  "loadRest app fs ws userId userData userSessions userStats now =
    (if \<not> truthy userData then
       (if isOnline app then
          (let c = SaveUserProfile (JStr userId) defaultProfile;
               a1 = app\<lparr>remoteLog := remoteLog app @ [c]\<rparr>
           in case fs (remoteLog app) c of
                Rejected \<Rightarrow> loadCatch a1 userId now
              | Resolved v \<Rightarrow>
                  loadShow (a1\<lparr>storage := cacheUserProfile (storage a1) userId defaultProfile now\<rparr>)
                    ws defaultProfile userSessions userStats now)
        else
          loadShow (app\<lparr>storage := cacheUserProfile (storage app) userId defaultProfile now\<rparr>)
            ws defaultProfile userSessions userStats now)
     else loadShow app ws userData userSessions userStats now)"

text \<open>\<^verbatim>\<open>Promise.all\<close>: the resolved values in order, or nothing when one rejects.\<close>

fun promiseAll :: "response list \<Rightarrow> jsval list option" where
  "promiseAll [] = Some []"
| "promiseAll (Rejected # rs) = None"
| "promiseAll (Resolved v # rs) = map_option ((#) v) (promiseAll rs)"

definition loadUserData :: "App \<Rightarrow> firestoreService \<Rightarrow> weatherService \<Rightarrow> string \<Rightarrow> int
    \<Rightarrow> (error + unit) \<times> App" where
  "loadUserData app fs ws userId now =
    (let (userData, s1) = getCachedUserProfile (storage app) userId now;
         (userSessions, s2) = getCachedSessions s1 userId now;
         (userStats, s3) = getCachedStats s2 userId now;
         a1 = app\<lparr>loading := True, storage := s3\<rparr>
     in
       if isOnline app then
         (let log0 = remoteLog a1;
              c0 = GetUserProfile userId;
              c1 = GetUserSessions userId 20;
              c2 = GetWeightHistory userId 10;
              c3 = GetUserStats userId;
              a2 = a1\<lparr>remoteLog := log0 @ [c0, c1, c2, c3]\<rparr>
          in
            case promiseAll [fs log0 c0, fs (log0 @ [c0]) c1, fs (log0 @ [c0, c1]) c2,
                             fs (log0 @ [c0, c1, c2]) c3] of
              None \<Rightarrow> loadCatch a2 userId now
            | Some freshData \<Rightarrow>
                (let userData' = js_or (freshData ! 0) userData;
                     userSessions' = js_or (js_or (freshData ! 1) userSessions) (JArr []);
                     userWeights = js_or (freshData ! 2) (JArr []);
                     userStats' = js_or (freshData ! 3) userStats;
                     s4 = (if truthy userData'
                           then cacheUserProfile (storage a2) userId userData' now
                           else storage a2);
                     s5 = (if truthy userSessions'
                           then cacheSessions s4 userId userSessions' now else s4);
                     s6 = (if truthy userStats'
                           then cacheStats s5 userId userStats' now else s5);
                     a3 = a2\<lparr>storage := s6, weightHistory := userWeights\<rparr>
                 in loadRest a3 fs ws userId userData' userSessions' userStats' now))
       else loadRest a1 fs ws userId userData userSessions userStats now)"

section \<open>App.tsx: the handlers that change data\<close>

text \<open>
  The end of \<^verbatim>\<open>handleUserUpdate\<close>: when the city is new and not empty the weather is
  fetched and cached inside a \<^verbatim>\<open>try\<close> whose \<^verbatim>\<open>catch\<close> only logs. \<open>oldUser\<close>
  is \<^verbatim>\<open>user\<close> as the handler sees it, and \<^verbatim>\<open>city?: string\<close>.
\<close>

definition reloadWeather :: "App \<Rightarrow> weatherService \<Rightarrow> (string \<times> jsval) list \<Rightarrow> jsval \<Rightarrow> int \<Rightarrow> App" where
  "reloadWeather app ws updatedUser oldUser now =
    (case map_of updatedUser ''city'' of
       Some (JStr city) \<Rightarrow>
         if Some (JStr city) \<noteq> (if oldUser = JNull then None else getProp oldUser ''city'') \<and> city \<noteq> []
         then (case ws city of
                 Rejected \<Rightarrow> app
               | Resolved newWeather \<Rightarrow>
                   app\<lparr>weather := newWeather,
                       storage := cacheWeatherData (storage app) city newWeather now\<rparr>)
         else app
     | _ \<Rightarrow> app)"

text \<open>
  \<^verbatim>\<open>handleUserUpdate(updatedUser)\<close>. \<open>updatedUser\<close> is a \<^verbatim>\<open>UserProfile\<close>, given by
  its properties. \<open>newId\<close> is the id \<^verbatim>\<open>addToSyncQueue\<close> would draw. A rejected remote
  save is caught and shown as the warning \<open>SaveWarning\<close>.
\<close>

definition handleUserUpdate :: "App \<Rightarrow> firestoreService \<Rightarrow> weatherService \<Rightarrow> (string \<times> jsval) list
    \<Rightarrow> string \<Rightarrow> int \<Rightarrow> App" where
  "handleUserUpdate app fs ws updatedUser newId now =
    (case authUser app of
       None \<Rightarrow> app
     | Some uid \<Rightarrow>
        (let a1 = app\<lparr>user := JObj updatedUser\<rparr>;
             a2 = a1\<lparr>storage := cacheUserProfile (storage a1) uid (JObj updatedUser) now\<rparr>
         in
           if isOnline app then
             (let c = SaveUserProfile (JStr uid)
                        (JObj (AList.update ''notifications''
                                 (case map_of updatedUser ''notifications'' of
                                    Some n \<Rightarrow> n | None \<Rightarrow> JBool True)
                                 updatedUser));
                  a3 = a2\<lparr>remoteLog := remoteLog a2 @ [c]\<rparr>
              in case fs (remoteLog a2) c of
                   Rejected \<Rightarrow> a3\<lparr>notifications := notifications a3 @ [SaveWarning]\<rparr>
                 | Resolved v \<Rightarrow> reloadWeather a3 ws updatedUser (user app) now)
           else
             reloadWeather
               (a2\<lparr>storage := addToSyncQueue (storage a2) Update ''users''
                                 (JObj [(''userId'', JStr uid), (''profile'', JObj updatedUser)])
                                 newId now\<rparr>)
               ws updatedUser (user app) now))"

text \<open>
  \<^verbatim>\<open>handleWeightUpdate(weight)\<close>, called by the weight tracker after it has written
  the weight to the remote service: \<^verbatim>\<open>setUser({ ...user, weight })\<close>, then the weight
  history is fetched again. The storage service is not called.
\<close>

definition handleWeightUpdate :: "App \<Rightarrow> firestoreService \<Rightarrow> int \<Rightarrow> App" where
  "handleWeightUpdate app fs newWeight =
    (case (user app, authUser app) of
       (JObj kvs, Some uid) \<Rightarrow>
         (let a1 = app\<lparr>user := JObj (AList.update ''weight'' (JNum newWeight) kvs)\<rparr>;
              c = GetWeightHistory uid 10;
              a2 = a1\<lparr>remoteLog := remoteLog a1 @ [c]\<rparr>
          in case fs (remoteLog a1) c of
               Rejected \<Rightarrow> a2
             | Resolved history \<Rightarrow> a2\<lparr>weightHistory := history\<rparr>)
     | _ \<Rightarrow> app)"

text \<open>
  The \<^verbatim>\<open>session\<close> object \<^verbatim>\<open>handleActivityComplete\<close> builds from the plan (a
  \<^verbatim>\<open>DailyPlan\<close> object), the weather shown and its optional arguments.
  \<^verbatim>\<open>new Date()\<close> is the clock reading.
\<close>

definition sessionProps :: "string \<Rightarrow> jsval \<Rightarrow> jsval \<Rightarrow> jsval option \<Rightarrow> jsval option \<Rightarrow> jsval option
    \<Rightarrow> int \<Rightarrow> (string \<times> jsval) list" where
  "sessionProps uid plan curWeather actualDuration rating notes now =
    objProps [(''userId'', Some (JStr uid)),
              (''activity'', getProp plan ''activity''),
              (''duration'', getProp plan ''duration''),
              (''actualDuration'',
                 (if truthy_opt actualDuration then actualDuration else getProp plan ''duration'')),
              (''intensity'', getProp plan ''intensity''),
              (''weather'', Some (JObj (objProps [(''temp'', getProp curWeather ''temp''),
                                                  (''condition'', getProp curWeather ''condition'')]))),
              (''completed'', Some (JBool True)),
              (''date'', Some (JNum now)),
              (''calories'', getProp plan ''calories''),
              (''notes'', (if truthy_opt notes then notes else Some (JStr []))),
              (''rating'', (if truthy_opt rating then rating else Some (JNum 5)))]"

text \<open>\<^verbatim>\<open>user?.weeklyGoal || 5\<close>, where \<^verbatim>\<open>weeklyGoal?: number\<close>.\<close>

definition weeklyGoalOf :: "jsval \<Rightarrow> int" where
  "weeklyGoalOf u =
    (case (if u = JNull then None else getProp u ''weeklyGoal'') of
       Some (JNum n) \<Rightarrow> if n \<noteq> 0 then n else 5
     | _ \<Rightarrow> 5)"

text \<open>
  The end of \<^verbatim>\<open>handleActivityComplete\<close>, from \<^verbatim>\<open>await loadUserData(authUser.uid)\<close>
  on. \<open>app0\<close> is the state the handler was created in, which it reads \<^verbatim>\<open>stats\<close>,
  \<^verbatim>\<open>sessions\<close> and \<^verbatim>\<open>user\<close> from. A rejection of \<^verbatim>\<open>loadUserData\<close> is caught and
  shown as \<open>SessionWarning\<close>.
\<close>

definition completeRest :: "App \<Rightarrow> App \<Rightarrow> firestoreService \<Rightarrow> weatherService \<Rightarrow> string \<Rightarrow> int \<Rightarrow> App" where
  "completeRest app0 app fs ws uid now =
    (case loadUserData app fs ws uid now of
       (Inl e, a1) \<Rightarrow> a1\<lparr>notifications := notifications a1 @ [SessionWarning]\<rparr>
     | (Inr u, a1) \<Rightarrow>
         (let a2 = a1\<lparr>notifications := notifications a1 @ [SessionDone]\<rparr>
          in if truthy (stats app0) \<and> int (length (sessions app0)) + 1 \<ge> weeklyGoalOf (user app0)
             then a2\<lparr>notifications := notifications a2 @ [GoalAchieved (length (sessions app0) + 1)]\<rparr>
             else a2))"

text \<open>
  \<^verbatim>\<open>handleActivityComplete(plan, actualDuration?, rating?, notes?)\<close>:
  \<^verbatim>\<open>setSessions(prev => [session, ...prev])\<close>, then the session is written to the
  remote service when online (with \<^verbatim>\<open>id: session.id ?? ''\<close>) and put on the sync
  queue otherwise, then the data is loaded again. A rejected remote write is caught and
  shown as \<open>SessionWarning\<close>.
\<close>

definition handleActivityComplete :: "App \<Rightarrow> firestoreService \<Rightarrow> weatherService \<Rightarrow> jsval
    \<Rightarrow> jsval option \<Rightarrow> jsval option \<Rightarrow> jsval option \<Rightarrow> string \<Rightarrow> int \<Rightarrow> App" where
  "handleActivityComplete app fs ws plan actualDuration rating notes newId now =
    (case authUser app of
       None \<Rightarrow> app
     | Some uid \<Rightarrow>
        if \<not> truthy (weather app) then app
        else
          (let props = sessionProps uid plan (weather app) actualDuration rating notes now;
               session = JObj props;
               a1 = app\<lparr>sessions := session # sessions app\<rparr>
           in
             if isOnline app then
               (let c = AddActivitySession (JObj (AList.update ''id'' (JStr []) props));
                    a2 = a1\<lparr>remoteLog := remoteLog a1 @ [c]\<rparr>
                in case fs (remoteLog a1) c of
                     Rejected \<Rightarrow> a2\<lparr>notifications := notifications a2 @ [SessionWarning]\<rparr>
                   | Resolved v \<Rightarrow> completeRest app a2 fs ws uid now)
             else
               completeRest app
                 (a1\<lparr>storage := addToSyncQueue (storage a1) Create ''sessions'' session newId now\<rparr>)
                 fs ws uid now))"

section \<open>syncPendingData as a task that suspends\<close>

text \<open>
  \<^verbatim>\<open>syncPendingData\<close> is an \<^verbatim>\<open>async\<close> function: it runs without interruption up
  to \<^verbatim>\<open>await this.executeSyncItem(item, firestoreService)\<close>, where the remote write
  has been sent and the function suspends; other event handlers, such as a second
  \<^verbatim>\<open>syncPendingData\<close> started by a connectivity event, run until the write settles.
  The class has no flag or lock that a running pass sets.

  A task is \<open>NotStarted\<close>, or suspended at the \<^verbatim>\<open>await\<close> of an item, or has
  returned its count. A suspended task holds the item it waits for, the outcome that
  will be delivered to it, the rest of its snapshot and its two accumulators. This section
  models a service whose persistent store is available: every snapshot is then a copy of
  its own, made by \<^verbatim>\<open>JSON.parse\<close>.
\<close>

datatype drainTask =
    NotStarted
  | Awaiting SyncQueue "error + unit" "SyncQueue list" nat "SyncQueue list"
  | Returned nat

text \<open>
  From the call of \<^verbatim>\<open>syncPendingData\<close> to its first \<^verbatim>\<open>await\<close>: the connectivity
  check, the snapshot, and the write of the first item sent.
\<close>

definition drainStart :: "bool \<Rightarrow> firestoreService option \<Rightarrow> int \<Rightarrow> StorageService \<times> remote_call list
    \<Rightarrow> drainTask \<times> StorageService \<times> remote_call list" where
  "drainStart online svc now w =
    (if \<not> online then (Returned 0, w)
     else
       let (syncQueue, s1) = getSyncQueue (fst w) now in
       case syncQueue of
         [] \<Rightarrow> (Returned 0, s1, snd w)
       | item # rest \<Rightarrow>
           (let (outcome, log') = executeSyncItem item svc (snd w)
            in (Awaiting item outcome rest 0 [], s1, log')))"

text \<open>
  From the settling of the awaited write to the next \<^verbatim>\<open>await\<close>, or to the end:
  the outcome is counted, and either the write of the next item is sent or the remaining
  queue replaces the stored one and the count is returned.
\<close>

definition drainResume :: "firestoreService option \<Rightarrow> int \<Rightarrow> drainTask \<Rightarrow> StorageService \<times> remote_call list
    \<Rightarrow> drainTask \<times> StorageService \<times> remote_call list" where
  "drainResume svc now task w =
    (case task of
       Awaiting item outcome rest syncedCount remainingQueue \<Rightarrow>
         (let (syncedCount', remainingQueue') = settle item outcome syncedCount remainingQueue in
          case rest of
            [] \<Rightarrow>
              (Returned syncedCount',
               snd (set_cached (fst w) SYNC_QUEUE_KEY (Some (QueueVal remainingQueue')) None now),
               snd w)
          | item' # rest' \<Rightarrow>
              (let (outcome', log') = executeSyncItem item' svc (snd w)
               in (Awaiting item' outcome' rest' syncedCount' remainingQueue', fst w, log')))
     | NotStarted \<Rightarrow> (task, w)
     | Returned n \<Rightarrow> (task, w))"

text \<open>One turn of a task: it starts, or it resumes, or it has returned already.\<close>

definition stepTask :: "bool \<Rightarrow> firestoreService option \<Rightarrow> int \<Rightarrow> drainTask
    \<Rightarrow> StorageService \<times> remote_call list \<Rightarrow> drainTask \<times> StorageService \<times> remote_call list" where
  "stepTask online svc now task w =
    (case task of
       NotStarted \<Rightarrow> drainStart online svc now w
     | Awaiting item outcome rest syncedCount remainingQueue \<Rightarrow> drainResume svc now task w
     | Returned n \<Rightarrow> (task, w))"

text \<open>
  A schedule names, turn by turn, the task that runs and the clock reading of its turn.
  The tasks share the service and the remote.
\<close>

fun runSchedule :: "bool \<Rightarrow> firestoreService option \<Rightarrow> (nat \<times> int) list
    \<Rightarrow> drainTask list \<times> StorageService \<times> remote_call list
    \<Rightarrow> drainTask list \<times> StorageService \<times> remote_call list" where
  "runSchedule online svc [] c = c"
| "runSchedule online svc ((i, now) # turns) c =
    (if i < length (fst c)
     then (let (task', w') = stepTask online svc now (fst c ! i) (snd c)
           in runSchedule online svc turns ((fst c)[i := task'], w'))
     else runSchedule online svc turns c)"

section \<open>Notions used in the statements\<close>

text \<open>The remote writes a list of queue items leads to, in order.\<close>

definition writesOf :: "SyncQueue list \<Rightarrow> remote_call list" where
  "writesOf queue =
    List.map_filter (\<lambda>item. case remoteWrite item of Inr (Some c) \<Rightarrow> Some c | _ \<Rightarrow> None) queue"

text \<open>
  Calls of \<^verbatim>\<open>syncPendingData\<close> one after the other, each while online, at the given
  clock readings; the service and the calls received by the remote are threaded through.
\<close>

fun drains :: "firestoreService option \<Rightarrow> int list \<Rightarrow> StorageService \<times> remote_call list
    \<Rightarrow> StorageService \<times> remote_call list" where
  "drains svc [] w = w"
| "drains svc (t # ts) w = drains svc ts (snd (syncPendingData (fst w) True svc t (snd w)))"

section \<open>Concrete services, items and states\<close>

text \<open>A service on a working persistent store that holds the given sync queue.\<close>

definition storeWith :: "SyncQueue list \<Rightarrow> StorageService" where
  "storeWith queue =
    \<lparr>isStorageAvailable = True,
     localStorage = [(''fitness_app_sync_queue'',
                      Json \<lparr>data = QueueVal queue, timestamp = 0, expiry = None\<rparr>)],
     setItemThrows = False,
     inMemoryStorage = []\<rparr>"

text \<open>A service whose persistent store was found available and now refuses every write.\<close>

definition fullStore :: StorageService where
  "fullStore =
    \<lparr>isStorageAvailable = True, localStorage = [], setItemThrows = True, inMemoryStorage = []\<rparr>"

text \<open>
  A service holding one entry that expires at time 100, one entry that never expires and
  a key of another application.
\<close>

definition expiringStore :: StorageService where
  "expiringStore =
    \<lparr>isStorageAvailable = True,
     localStorage = [(''fitness_app_weather_lyon'',
                      Json \<lparr>data = Val (JStr ''sunny''), timestamp = 0, expiry = Some 100\<rparr>),
                     (''fitness_app_note'',
                      Json \<lparr>data = Val (JStr ''keep''), timestamp = 0, expiry = None\<rparr>),
                     (''theme'', Raw ''dark'')],
     setItemThrows = False,
     inMemoryStorage = []\<rparr>"

definition rejectAll :: firestoreService where
  "rejectAll lg c = Rejected"

definition acceptAll :: firestoreService where
  "acceptAll lg c = Resolved JNull"

definition noWeather :: weatherService where
  "noWeather city = Rejected"

definition sunnyWeather :: weatherService where
  "sunnyWeather city = Resolved (JObj [(''temp'', JNum 20), (''condition'', JStr ''sunny'')])"

text \<open>An item for a collection the reconciler does not know.\<close>

definition unsupportedItem :: SyncQueue where
  "unsupportedItem =
    \<lparr>id_item = ''1'', action = Create, collection = ''goals'',
     data_item = JObj [(''userId'', JStr ''u1'')], timestamp_item = 0, retryCount = 0\<rparr>"

text \<open>A weight entry waiting to be created.\<close>

definition weightItem :: SyncQueue where
  "weightItem =
    \<lparr>id_item = ''1'', action = Create, collection = ''weights'',
     data_item = JObj [(''userId'', JStr ''u1''), (''weight'', JNum 70)],
     timestamp_item = 0, retryCount = 0\<rparr>"

definition annProfile :: "(string \<times> jsval) list" where
  "annProfile = [(''name'', JStr ''Ann''), (''weight'', JNum 70), (''city'', JStr ''Lyon'')]"

text \<open>
  The application online, user \<open>u1\<close> signed in, her profile shown and cached for 48
  hours, nothing else cached or queued.
\<close>

definition annApp :: App where
  "annApp =
    \<lparr>authUser = Some ''u1'',
     user = JObj annProfile,
     weather = JObj [(''temp'', JNum 20), (''condition'', JStr ''sunny'')],
     sessions = [],
     stats = JNull,
     weightHistory = JArr [],
     loading = False,
     isOnline = True,
     storage = \<lparr>isStorageAvailable = True,
                localStorage = [(''fitness_app_user_profile_u1'',
                                 Json \<lparr>data = Val (JObj annProfile), timestamp = 0,
                                       expiry = Some 172800000\<rparr>)],
                setItemThrows = False,
                inMemoryStorage = []\<rparr>,
     remoteLog = [],
     notifications = []\<rparr>"

definition walkPlan :: jsval where
  "walkPlan = JObj [(''activity'', JStr ''marche''), (''duration'', JNum 30),
                    (''intensity'', JStr ''faible'')]"

text \<open>
  The service after a registration made offline: \<^verbatim>\<open>handleRegister\<close> calls
  \<^verbatim>\<open>addToSyncQueue('create', 'users', { userId, profile })\<close> on an empty queue.
\<close>

definition registeredOffline :: StorageService where
  "registeredOffline =
    addToSyncQueue (storeWith []) Create ''users''
      (JObj [(''userId'', JStr ''u1''), (''profile'', JObj annProfile)]) ''1'' 0"

text \<open>A completed session waiting to be created.\<close>

definition sessionItem :: SyncQueue where
  "sessionItem =
    \<lparr>id_item = ''1'', action = Create, collection = ''sessions'',
     data_item = JObj [(''userId'', JStr ''u1''), (''activity'', JStr ''marche'')],
     timestamp_item = 0, retryCount = 0\<rparr>"

text \<open>
  \<^verbatim>\<open>FirestoreService\<close> as it answers when the remote cannot be reached. Each of its
  reads catches the error and resolves: \<^verbatim>\<open>getUserProfile\<close> with \<^verbatim>\<open>null\<close>,
  \<^verbatim>\<open>getUserSessions\<close> and \<^verbatim>\<open>getWeightHistory\<close> with \<^verbatim>\<open>[]\<close>, and
  \<^verbatim>\<open>getUserStats\<close>, which fails on the empty session list, with \<^verbatim>\<open>null\<close>. Each
  of its writes logs the error and throws it again.
\<close>

definition unreachableFirestore :: firestoreService where
  "unreachableFirestore lg c =
    (case c of
       GetUserProfile u \<Rightarrow> Resolved JNull
     | GetUserSessions u n \<Rightarrow> Resolved (JArr [])
     | GetWeightHistory u n \<Rightarrow> Resolved (JArr [])
     | GetUserStats u \<Rightarrow> Resolved JNull
     | SaveUserProfile u p \<Rightarrow> Rejected
     | AddActivitySession x \<Rightarrow> Rejected
     | AddWeightEntry u w n \<Rightarrow> Rejected)"

text \<open>
  \<^verbatim>\<open>WeatherService.getCurrentWeather\<close> when its request fails: it resolves with its
  default weather.
\<close>

definition defaultWeather :: weatherService where
  "defaultWeather city =
    Resolved (JObj [(''temp'', JNum 20), (''condition'', JStr ''cloudy''),
                    (''humidity'', JNum 60), (''windSpeed'', JNum 10)])"

definition walkSession :: jsval where
  "walkSession = JObj [(''userId'', JStr ''u1''), (''activity'', JStr ''marche'')]"

text \<open>
  The application online with one session of user \<open>u1\<close> shown and cached for 24 hours,
  beside her profile.
\<close>

definition sessionsApp :: App where
  "sessionsApp =
    annApp\<lparr>sessions := [walkSession],
           storage := \<lparr>isStorageAvailable = True,
                       localStorage = [(''fitness_app_user_profile_u1'',
                                        Json \<lparr>data = Val (JObj annProfile), timestamp = 0,
                                              expiry = Some 172800000\<rparr>),
                                       (''fitness_app_sessions_u1'',
                                        Json \<lparr>data = Val (JArr [walkSession]), timestamp = 0,
                                              expiry = Some 86400000\<rparr>)],
                       setItemThrows = False,
                       inMemoryStorage = []\<rparr>\<rparr>"

text \<open>
  The application offline, with the persistent store found available at start and now
  refusing every write; the profile of user \<open>u1\<close> is shown and cached.
\<close>

definition offlineFullApp :: App where
  "offlineFullApp =
    annApp\<lparr>isOnline := False,
           storage := (storage annApp)\<lparr>setItemThrows := True\<rparr>\<rparr>"

section \<open>The key-value cache: lemmas\<close>

lemma fold_delete_filter:
  "fold AList.delete ks al = filter (\<lambda>p. fst p \<notin> set ks) al"
proof (induction ks arbitrary: al)
  case Nil
  then show ?case by simp
next
  case (Cons k ks)
  have "AList.delete k al = filter (\<lambda>p. fst p \<noteq> k) al"
    by (auto simp: AList.delete_eq intro: filter_cong)
  then show ?case using Cons by (auto intro: filter_cong)
qed

lemma clear_keys:
  "fold AList.delete (filter P (map fst al)) al = filter (\<lambda>p. \<not> P (fst p)) al"
  unfolding fold_delete_filter by (rule filter_cong) auto

lemma set_cached_flags [simp]:
  "isStorageAvailable (snd (set_cached s key v ttl now)) = isStorageAvailable s"
  "setItemThrows (snd (set_cached s key v ttl now)) = setItemThrows s"
  by (auto simp: set_cached_def Let_def split: option.splits)

lemma remove_flags [simp]:
  "isStorageAvailable (snd (remove s key)) = isStorageAvailable s"
  "setItemThrows (snd (remove s key)) = setItemThrows s"
  by (auto simp: remove_def)

lemma get_flags [simp]:
  "isStorageAvailable (snd (get s key now)) = isStorageAvailable s"
  "setItemThrows (snd (get s key now)) = setItemThrows s"
  by (auto simp: get_def split: option.splits)

lemma readEntry_remove:
  "key \<noteq> [] \<Longrightarrow> readEntry (snd (remove s key)) (PREFIX @ key) = None"
  by (simp add: remove_def readEntry_def AList.delete_conv')

lemma readEntry_remove_other:
  "k \<noteq> PREFIX @ key \<Longrightarrow> readEntry (snd (remove s key)) k = readEntry s k"
  by (auto simp: remove_def readEntry_def AList.delete_conv')

lemma readEntry_set_same:
  assumes "key \<noteq> []" and "\<not> (isStorageAvailable s \<and> setItemThrows s)"
  shows "readEntry (snd (set_cached s key (Some v) ttl now)) (PREFIX @ key)
         = Some \<lparr>data = v, timestamp = now,
                 expiry = (case ttl of None \<Rightarrow> None
                           | Some h \<Rightarrow> if h \<noteq> 0 then Some (now + h * 60 * 60 * 1000) else None)\<rparr>"
  using assms by (auto simp: set_cached_def readEntry_def Let_def AList.update_conv')

lemma readEntry_set_other:
  assumes "k \<noteq> PREFIX @ key"
  shows "readEntry (snd (set_cached s key v ttl now)) k = readEntry s k"
  using assms
  by (auto simp: set_cached_def readEntry_def Let_def AList.update_conv' split: option.splits)

lemma readEntry_get_other:
  "k \<noteq> PREFIX @ key \<Longrightarrow> readEntry (snd (get s key now)) k = readEntry s k"
  by (auto simp: get_def readEntry_remove_other split: option.splits)

text \<open>What \<^verbatim>\<open>get\<close> returns depends on the entry under its key only.\<close>

lemma get_cong_entry:
  "readEntry s (PREFIX @ key) = readEntry s' (PREFIX @ key)
   \<Longrightarrow> fst (get s key now) = fst (get s' key now)"
  by (auto simp: get_def split: option.splits)

lemma get_again:
  "fst (get (snd (get s key now)) key now) = fst (get s key now)"
  by (auto simp: get_def readEntry_remove split: option.splits)

text \<open>A read, which may evict, does not change what a read at the same time returns.\<close>

lemma get_get:
  "fst (get (snd (get s key' now)) key now) = fst (get s key now)"
proof (cases "key' = key")
  case True
  then show ?thesis by (simp add: get_again)
next
  case False
  then have "PREFIX @ key \<noteq> PREFIX @ key'" by simp
  then show ?thesis by (intro get_cong_entry readEntry_get_other)
qed

lemma get_after_set_other:
  "key \<noteq> key' \<Longrightarrow> fst (get (snd (set_cached s key' v ttl t)) key now) = fst (get s key now)"
  by (intro get_cong_entry readEntry_set_other) simp

text \<open>
  The round trip on the paths that do not throw: with a working persistent store, or
  with the in-memory map in use from the start, a value written under a non-empty key
  with no expiry or a non-negative one is read back at the time of the write.
\<close>

lemma get_set_same:
  assumes "key \<noteq> []" and "\<not> (isStorageAvailable s \<and> setItemThrows s)"
    and "case ttl of None \<Rightarrow> True | Some h \<Rightarrow> 0 \<le> h"
  shows "fst (set_cached s key (Some v) ttl now) = True"
    and "fst (get (snd (set_cached s key (Some v) ttl now)) key now) = v"
proof -
  show "fst (set_cached s key (Some v) ttl now) = True"
    using assms by (auto simp: set_cached_def Let_def)
  show "fst (get (snd (set_cached s key (Some v) ttl now)) key now) = v"
    using assms by (auto simp: get_def readEntry_set_same split: option.splits)
qed

section \<open>The key-value cache: claims\<close>

text \<open>
  Claim C8. For every state of the service, \<^verbatim>\<open>clear()\<close> returns \<^verbatim>\<open>true\<close> and
  the store in use (\<^verbatim>\<open>localStorage\<close> when it is available, the in-memory map
  otherwise) is afterwards exactly its entries whose keys do not start with the prefix
  \<^verbatim>\<open>fitness_app_\<close>, unchanged and in their order: every entry under the prefix is
  gone, and every other entry, a key set by another application included, is kept.
  The store not in use and the two flags are unchanged.
\<close>

theorem clear_namespace_isolation:
  "fst (clear s) = True
   \<and> (if isStorageAvailable s
      then localStorage (snd (clear s))
             = filter (\<lambda>p. \<not> startsWith (fst p) PREFIX) (localStorage s)
           \<and> inMemoryStorage (snd (clear s)) = inMemoryStorage s
      else inMemoryStorage (snd (clear s))
             = filter (\<lambda>p. \<not> startsWith (fst p) PREFIX) (inMemoryStorage s)
           \<and> localStorage (snd (clear s)) = localStorage s)
   \<and> isStorageAvailable (snd (clear s)) = isStorageAvailable s
   \<and> setItemThrows (snd (clear s)) = setItemThrows s"
  by (simp add: clear_def clear_keys)

theorem clear_namespace_isolation_witness:
  "fst (clear expiringStore) = True
   \<and> localStorage (snd (clear expiringStore)) = [(''theme'', Raw ''dark'')]"
  using clear_namespace_isolation [of expiringStore]
  by (simp add: expiringStore_def startsWith_def PREFIX_def)

text \<open>
  Claim C3. Let the store in use hold an entry \<open>c\<close> under the prefixed key. If the expiry
  of \<open>c\<close> is set to a time \<open>e\<close> strictly before \<open>now\<close>, then \<^verbatim>\<open>get(key)\<close> returns
  \<^verbatim>\<open>null\<close>, never the data, and after it the entry is gone. If \<open>c\<close> has no expiry,
  \<^verbatim>\<open>get(key)\<close> returns its data at every time and changes nothing. Two readings of the
  code are made explicit: an expiry is set when it is not \<open>0\<close>, since the test
  \<^verbatim>\<open>cachedData.expiry && ...\<close> reads \<open>0\<close> as no expiry, and the eviction and the
  read of an entry need a non-empty key, since \<^verbatim>\<open>get\<close> returns \<^verbatim>\<open>null\<close> for the empty
  key before it looks at the store (no entry is ever written under it).
\<close>

theorem get_expiry:
  assumes "readEntry s (PREFIX @ key) = Some c"
  shows "(\<forall>e. expiry c = Some e \<and> e \<noteq> 0 \<and> e < now \<longrightarrow>
            fst (get s key now) = Val JNull
            \<and> (key \<noteq> [] \<longrightarrow> readEntry (snd (get s key now)) (PREFIX @ key) = None))
         \<and> (expiry c = None \<and> key \<noteq> [] \<longrightarrow> (\<forall>t. get s key t = (data c, s)))"
  using assms by (auto simp: get_def readEntry_remove)

theorem get_expiry_witness:
  "fst (get expiringStore ''weather_lyon'' 101) = Val JNull
   \<and> readEntry (snd (get expiringStore ''weather_lyon'' 101)) (PREFIX @ ''weather_lyon'') = None
   \<and> get expiringStore ''note'' 4102444800000 = (Val (JStr ''keep''), expiringStore)"
proof -
  have a: "readEntry expiringStore (PREFIX @ ''weather_lyon'')
           = Some \<lparr>data = Val (JStr ''sunny''), timestamp = 0, expiry = Some 100\<rparr>"
    by (simp add: readEntry_def expiringStore_def PREFIX_def)
  have b: "readEntry expiringStore (PREFIX @ ''note'')
           = Some \<lparr>data = Val (JStr ''keep''), timestamp = 0, expiry = None\<rparr>"
    by (simp add: readEntry_def expiringStore_def PREFIX_def)
  show ?thesis
    using get_expiry [OF a, of 101] get_expiry [OF b, of 0] by simp
qed

text \<open>
  Claim C10, on the path the claim names. The persistent store was found available and
  \<^verbatim>\<open>localStorage.setItem\<close> now throws: \<^verbatim>\<open>set('k', 1)\<close> writes the entry to the
  in-memory map and returns \<^verbatim>\<open>true\<close>, and the \<^verbatim>\<open>get('k')\<close> that follows reads
  \<^verbatim>\<open>localStorage\<close>, finds nothing and returns \<^verbatim>\<open>null\<close>. On the paths that do not
  throw the value is read back (lemma \<open>get_set_same\<close>).
\<close>

theorem fallback_write_is_not_read_back:
  "fst (set_cached fullStore ''k'' (Some (Val (JNum 1))) None 0) = True
   \<and> inMemoryStorage (snd (set_cached fullStore ''k'' (Some (Val (JNum 1))) None 0))
       = [(''fitness_app_k'', \<lparr>data = Val (JNum 1), timestamp = 0, expiry = None\<rparr>)]
   \<and> fst (get (snd (set_cached fullStore ''k'' (Some (Val (JNum 1))) None 0)) ''k'' 0) = Val JNull"
  by (simp add: set_cached_def get_def fullStore_def readEntry_def PREFIX_def)

section \<open>The sync queue and the reconciler: lemmas\<close>

lemma getSyncQueue_fst:
  "fst (getSyncQueue s t) = (case fst (get s SYNC_QUEUE_KEY t) of QueueVal q \<Rightarrow> q | Val v \<Rightarrow> [])"
  by (simp add: getSyncQueue_def split: prod.splits stored.splits)

lemma getSyncQueue_snd: "snd (getSyncQueue s t) = snd (get s SYNC_QUEUE_KEY t)"
  by (simp add: getSyncQueue_def split: prod.splits stored.splits)

lemma getSyncQueue_flags [simp]:
  "isStorageAvailable (snd (getSyncQueue s now)) = isStorageAvailable s"
  "setItemThrows (snd (getSyncQueue s now)) = setItemThrows s"
  by (simp_all add: getSyncQueue_snd)

text \<open>The queue written by \<^verbatim>\<open>set(SYNC_QUEUE_KEY, queue)\<close> is the queue read at any time.\<close>

lemma getSyncQueue_set:
  assumes "\<not> (isStorageAvailable s \<and> setItemThrows s)"
  shows "fst (getSyncQueue (snd (set_cached s SYNC_QUEUE_KEY (Some (QueueVal q)) None now)) t) = q"
proof -
  have k: "SYNC_QUEUE_KEY \<noteq> []" by (simp add: SYNC_QUEUE_KEY_def)
  have "readEntry (snd (set_cached s SYNC_QUEUE_KEY (Some (QueueVal q)) None now))
          (PREFIX @ SYNC_QUEUE_KEY)
        = Some \<lparr>data = QueueVal q, timestamp = now, expiry = None\<rparr>"
    using readEntry_set_same [OF k assms, of "QueueVal q" None now] by simp
  then show ?thesis using k by (simp add: getSyncQueue_def get_def)
qed

lemma getSyncQueue_empty_again:
  assumes "fst (getSyncQueue s now) = []"
  shows "fst (getSyncQueue (snd (getSyncQueue s now)) t) = []"
  using assms
  by (auto simp: getSyncQueue_def get_def readEntry_remove SYNC_QUEUE_KEY_def
           split: option.splits stored.splits if_splits)

lemma getSyncQueue_storeWith: "getSyncQueue (storeWith q) t = (q, storeWith q)"
  by (simp add: getSyncQueue_def get_def readEntry_def storeWith_def SYNC_QUEUE_KEY_def PREFIX_def)

lemma remoteWrite_retry [simp]:
  "remoteWrite (item\<lparr>retryCount := n\<rparr>) = remoteWrite item"
  by (simp add: remoteWrite_def cong: if_cong)

lemma writesOf_simps [simp]:
  "writesOf [] = []"
  "writesOf (item # rest) =
    (case remoteWrite item of Inr (Some c) \<Rightarrow> c # writesOf rest | _ \<Rightarrow> writesOf rest)"
  by (auto simp: writesOf_def map_filter_simps split: sum.splits option.splits)

text \<open>
  The loop when the remote rejects every write and no item is skipped in silence: every
  item fails, by the rejection of its write or by the exception of the \<^verbatim>\<open>switch\<close>.
\<close>

lemma syncLoop_all_fail:
  assumes "\<forall>lg c. f lg c = Rejected"
    and "\<forall>i\<in>set queue. remoteWrite i \<noteq> Inr None"
  shows "syncLoop (Some f) queue n rem log =
          (n, rem @ map (\<lambda>i. i\<lparr>retryCount := retryCount i + 1\<rparr>)
                       (filter (\<lambda>i. retryCount i + 1 < 3) queue),
           log @ writesOf queue)"
  using assms(2)
proof (induction queue arbitrary: rem log)
  case Nil
  then show ?case by simp
next
  case (Cons item rest)
  from Cons have IH: "\<And>rem log. syncLoop (Some f) rest n rem log =
          (n, rem @ map (\<lambda>i. i\<lparr>retryCount := retryCount i + 1\<rparr>)
                       (filter (\<lambda>i. retryCount i + 1 < 3) rest),
           log @ writesOf rest)" by simp
  show ?case
  proof (cases "remoteWrite item")
    case (Inl e)
    then have "executeSyncItem item (Some f) log = (Inl e, log)"
      by (simp add: executeSyncItem_def)
    then show ?thesis using Inl by (simp add: IH settle_def Let_def)
  next
    case (Inr w)
    then obtain c where c: "remoteWrite item = Inr (Some c)"
      using Cons.prems by (cases w) auto
    have "executeSyncItem item (Some f) log = (Inl RemoteError, log @ [c])"
      using c assms(1) by (simp add: executeSyncItem_def)
    then show ?thesis using c by (simp add: IH settle_def Let_def)
  qed
qed

text \<open>One pass while online, under the same two conditions, on a store that takes writes.\<close>

lemma drain_pass_all_fail:
  assumes persist: "\<not> (isStorageAvailable s \<and> setItemThrows s)"
    and fails: "\<forall>lg c. f lg c = Rejected"
    and loud: "\<forall>i\<in>set (fst (getSyncQueue s now)). remoteWrite i \<noteq> Inr None"
  shows "fst (syncPendingData s True (Some f) now log) = 0"
    and "fst (getSyncQueue (fst (snd (syncPendingData s True (Some f) now log))) t)
         = map (\<lambda>i. i\<lparr>retryCount := retryCount i + 1\<rparr>)
               (filter (\<lambda>i. retryCount i + 1 < 3) (fst (getSyncQueue s now)))"
    and "snd (snd (syncPendingData s True (Some f) now log))
         = log @ writesOf (fst (getSyncQueue s now))"
    and "isStorageAvailable (fst (snd (syncPendingData s True (Some f) now log)))
         = isStorageAvailable s"
    and "setItemThrows (fst (snd (syncPendingData s True (Some f) now log))) = setItemThrows s"
proof -
  obtain q s1 where g: "getSyncQueue s now = (q, s1)" by (cases "getSyncQueue s now")
  have fl: "isStorageAvailable s1 = isStorageAvailable s" "setItemThrows s1 = setItemThrows s"
    using getSyncQueue_flags [of s now] g by simp_all
  have p1: "\<not> (isStorageAvailable s1 \<and> setItemThrows s1)"
    using persist fl by simp
  have loop: "syncLoop (Some f) q 0 [] log =
      (0, map (\<lambda>i. i\<lparr>retryCount := retryCount i + 1\<rparr>) (filter (\<lambda>i. retryCount i + 1 < 3) q),
       log @ writesOf q)"
    using syncLoop_all_fail [OF fails, of q 0 "[]" log] loud g by simp
  have e: "q = [] \<Longrightarrow> fst (getSyncQueue s1 t) = []"
    using getSyncQueue_empty_again [of s now t] g by simp
  show "fst (syncPendingData s True (Some f) now log) = 0"
    by (simp add: syncPendingData_def g loop)
  show "fst (getSyncQueue (fst (snd (syncPendingData s True (Some f) now log))) t)
         = map (\<lambda>i. i\<lparr>retryCount := retryCount i + 1\<rparr>)
               (filter (\<lambda>i. retryCount i + 1 < 3) (fst (getSyncQueue s now)))"
    using e by (simp add: syncPendingData_def g loop getSyncQueue_set [OF p1])
  show "snd (snd (syncPendingData s True (Some f) now log))
         = log @ writesOf (fst (getSyncQueue s now))"
    by (simp add: syncPendingData_def g loop)
  show "isStorageAvailable (fst (snd (syncPendingData s True (Some f) now log)))
         = isStorageAvailable s"
    by (simp add: syncPendingData_def g loop fl)
  show "setItemThrows (fst (snd (syncPendingData s True (Some f) now log))) = setItemThrows s"
    by (simp add: syncPendingData_def g loop fl)
qed

section \<open>The reconciler: claims\<close>

text \<open>
  Claim C7. Calling \<^verbatim>\<open>syncPendingData\<close> while \<^verbatim>\<open>isOnline()\<close> is false returns 0,
  makes no call to the remote service (the list of calls received is the one before) and
  leaves the whole service, the persisted sync queue included, as it was. This holds for
  every state of the service, every remote service and every time.
\<close>

theorem offline_drain_is_noop:
  "syncPendingData s False svc now log = (0, s, log)"
  by (simp add: syncPendingData_def)

theorem offline_drain_is_noop_witness:
  "syncPendingData (storeWith [weightItem]) False (Some acceptAll) 5 []
   = (0, storeWith [weightItem], [])"
  using offline_drain_is_noop [of "storeWith [weightItem]" "Some acceptAll" 5 "[]"] .

text \<open>
  Claim C1, as stated, fails for an item whose collection the reconciler does not know:
  \<^verbatim>\<open>executeSyncItem\<close> throws before it reaches the remote, so with a remote whose
  writes always fail the item, enqueued with \<open>retryCount = 0\<close>, is still dropped after
  three passes, and the remote has been invoked not three times but never.
\<close>

theorem bounded_retry_counterexample:
  "fst (getSyncQueue (storeWith [unsupportedItem]) 1) = [unsupportedItem]
   \<and> retryCount unsupportedItem = 0
   \<and> fst (getSyncQueue (fst (drains (Some rejectAll) [1, 2, 3] (storeWith [unsupportedItem], []))) 4)
       = []
   \<and> snd (drains (Some rejectAll) [1, 2, 3] (storeWith [unsupportedItem], [])) = []"
  by (simp add: getSyncQueue_def get_def readEntry_def storeWith_def SYNC_QUEUE_KEY_def PREFIX_def
      syncPendingData_def set_cached_def executeSyncItem_def remoteWrite_def unsupportedItem_def
      rejectAll_def settle_def Let_def)

text \<open>
  Claim C1, amended. Let the store take writes (the persistent store works, or the
  in-memory map is in use from the start), let every write of the remote service fail,
  and let no item of the queue be one that \<^verbatim>\<open>executeSyncItem\<close> skips in silence:
  each item either leads to a remote write or makes the \<^verbatim>\<open>switch\<close> throw. Then a
  pass while online returns 0, sends the write of each item that has one, once and in
  order, and leaves in the queue exactly the items whose incremented \<open>retryCount\<close> is
  below 3, each with its \<open>retryCount\<close> one higher. So for a queue of one such item with
  \<open>retryCount = 0\<close>: after the first pass the queue holds the item with count 1, after
  the second with count 2, after the third it is empty; over the three passes the remote
  has received the write of the item three times when the item leads to a write, and no
  call when it does not; a fourth pass sends nothing.
\<close>

theorem bounded_retry:
  assumes persist: "\<not> (isStorageAvailable s \<and> setItemThrows s)"
    and fails: "\<forall>lg c. f lg c = Rejected"
    and loud: "\<forall>i\<in>set (fst (getSyncQueue s now)). remoteWrite i \<noteq> Inr None"
  shows "fst (syncPendingData s True (Some f) now log) = 0
    \<and> fst (getSyncQueue (fst (snd (syncPendingData s True (Some f) now log))) t)
         = map (\<lambda>i. i\<lparr>retryCount := retryCount i + 1\<rparr>)
               (filter (\<lambda>i. retryCount i + 1 < 3) (fst (getSyncQueue s now)))
    \<and> snd (snd (syncPendingData s True (Some f) now log))
         = log @ writesOf (fst (getSyncQueue s now))
    \<and> (\<forall>item. fst (getSyncQueue s now) = [item] \<and> retryCount item = 0 \<longrightarrow>
          fst (getSyncQueue (fst (drains (Some f) [now] (s, log))) t) = [item\<lparr>retryCount := 1\<rparr>]
        \<and> fst (getSyncQueue (fst (drains (Some f) [now, t2] (s, log))) t)
            = [item\<lparr>retryCount := 2\<rparr>]
        \<and> fst (getSyncQueue (fst (drains (Some f) [now, t2, t3] (s, log))) t) = []
        \<and> snd (drains (Some f) [now, t2, t3] (s, log))
            = log @ writesOf [item] @ writesOf [item] @ writesOf [item]
        \<and> (\<forall>c. remoteWrite item = Inr (Some c) \<longrightarrow>
              snd (drains (Some f) [now, t2, t3] (s, log)) = log @ [c, c, c])
        \<and> snd (drains (Some f) [now, t2, t3, t4] (s, log))
            = snd (drains (Some f) [now, t2, t3] (s, log)))"
proof -
  note pass = drain_pass_all_fail [OF _ fails]
  have three: "fst (getSyncQueue (fst (drains (Some f) [now] (s, log))) t) = [item\<lparr>retryCount := 1\<rparr>]
        \<and> fst (getSyncQueue (fst (drains (Some f) [now, t2] (s, log))) t)
            = [item\<lparr>retryCount := 2\<rparr>]
        \<and> fst (getSyncQueue (fst (drains (Some f) [now, t2, t3] (s, log))) t) = []
        \<and> snd (drains (Some f) [now, t2, t3] (s, log))
            = log @ writesOf [item] @ writesOf [item] @ writesOf [item]
        \<and> (\<forall>c. remoteWrite item = Inr (Some c) \<longrightarrow>
              snd (drains (Some f) [now, t2, t3] (s, log)) = log @ [c, c, c])
        \<and> snd (drains (Some f) [now, t2, t3, t4] (s, log))
            = snd (drains (Some f) [now, t2, t3] (s, log))"
    if q: "fst (getSyncQueue s now) = [item]" and r: "retryCount item = 0" for item
  proof -
    have c: "remoteWrite item \<noteq> Inr None" using loud q by simp
    define w1 where "w1 = snd (syncPendingData s True (Some f) now log)"
    define w2 where "w2 = snd (syncPendingData (fst w1) True (Some f) t2 (snd w1))"
    define w3 where "w3 = snd (syncPendingData (fst w2) True (Some f) t3 (snd w2))"
    define w4 where "w4 = snd (syncPendingData (fst w3) True (Some f) t4 (snd w3))"
    have wr: "writesOf [item\<lparr>retryCount := k\<rparr>] = writesOf [item]" for k
      by simp
    have q1: "fst (getSyncQueue (fst w1) u) = [item\<lparr>retryCount := 1\<rparr>]" for u
      unfolding w1_def using pass(2) [OF persist loud, of log u] q r by simp
    have l1: "snd w1 = log @ writesOf [item]"
      unfolding w1_def using pass(3) [OF persist loud, of log] q by simp
    have p1: "\<not> (isStorageAvailable (fst w1) \<and> setItemThrows (fst w1))"
      unfolding w1_def using pass(4,5) [OF persist loud, of log] persist by simp
    have d1: "\<forall>i\<in>set (fst (getSyncQueue (fst w1) t2)). remoteWrite i \<noteq> Inr None"
      using q1 c by simp
    have q2: "fst (getSyncQueue (fst w2) u) = [item\<lparr>retryCount := 2\<rparr>]" for u
      unfolding w2_def using pass(2) [OF p1 d1, of "snd w1" u] q1 [of t2] by simp
    have l2: "snd w2 = log @ writesOf [item] @ writesOf [item]"
      unfolding w2_def using pass(3) [OF p1 d1, of "snd w1"] q1 [of t2] l1 wr [of 1]
      by (simp del: writesOf_simps)
    have p2: "\<not> (isStorageAvailable (fst w2) \<and> setItemThrows (fst w2))"
      unfolding w2_def using pass(4,5) [OF p1 d1, of "snd w1"] p1 by simp
    have d2: "\<forall>i\<in>set (fst (getSyncQueue (fst w2) t3)). remoteWrite i \<noteq> Inr None"
      using q2 c by simp
    have q3: "fst (getSyncQueue (fst w3) u) = []" for u
      unfolding w3_def using pass(2) [OF p2 d2, of "snd w2" u] q2 [of t3] by simp
    have l3: "snd w3 = log @ writesOf [item] @ writesOf [item] @ writesOf [item]"
      unfolding w3_def using pass(3) [OF p2 d2, of "snd w2"] q2 [of t3] l2 wr [of 2]
      by (simp del: writesOf_simps)
    have l3': "remoteWrite item = Inr (Some c') \<Longrightarrow> snd w3 = log @ [c', c', c']" for c'
      using l3 by simp
    have l4: "snd w4 = snd w3"
      unfolding w4_def using q3 [of t4]
      by (cases "getSyncQueue (fst w3) t4") (simp add: syncPendingData_def)
    show ?thesis
      using q1 q2 q3 l3 l3' l4 by (simp add: w1_def w2_def w3_def w4_def del: writesOf_simps)
  qed
  show ?thesis
    using pass(1) [OF persist loud, of log] pass(2) [OF persist loud, of log t]
      pass(3) [OF persist loud, of log] three
    by blast
qed

theorem bounded_retry_witness:
  "fst (getSyncQueue (fst (drains (Some rejectAll) [1, 2, 3] (storeWith [weightItem], []))) 4) = []
   \<and> snd (drains (Some rejectAll) [1, 2, 3] (storeWith [weightItem], []))
       = [AddWeightEntry (JStr ''u1'') (JNum 70) None,
          AddWeightEntry (JStr ''u1'') (JNum 70) None,
          AddWeightEntry (JStr ''u1'') (JNum 70) None]"
proof -
  have persist: "\<not> (isStorageAvailable (storeWith [weightItem])
                     \<and> setItemThrows (storeWith [weightItem]))"
    by (simp add: storeWith_def)
  have fails: "\<forall>lg c. rejectAll lg c = Rejected" by (simp add: rejectAll_def)
  have q: "fst (getSyncQueue (storeWith [weightItem]) 1) = [weightItem]"
    by (simp add: getSyncQueue_storeWith)
  have rw: "remoteWrite weightItem = Inr (Some (AddWeightEntry (JStr ''u1'') (JNum 70) None))"
    by (simp add: remoteWrite_def weightItem_def)
  have loud: "\<forall>i\<in>set (fst (getSyncQueue (storeWith [weightItem]) 1)). remoteWrite i \<noteq> Inr None"
    unfolding q using rw by simp
  have r: "retryCount weightItem = 0" by (simp add: weightItem_def)
  show ?thesis
    using bounded_retry [OF persist fails loud, where log = "[]" and t = 4 and ?t2.0 = 2
        and ?t3.0 = 3] q r rw
    by (simp del: drains.simps)
qed

text \<open>
  Claim C2, at an input the application produces. Registering while offline enqueues
  \<^verbatim>\<open>addToSyncQueue('create', 'users', { userId, profile })\<close>. For the collection
  \<^verbatim>\<open>users\<close> the \<^verbatim>\<open>switch\<close> of \<^verbatim>\<open>executeSyncItem\<close> writes only when the action is
  \<^verbatim>\<open>update\<close>; for \<^verbatim>\<open>create\<close> it falls to \<^verbatim>\<open>break\<close> and returns normally. The
  pass therefore counts the item as synced (it returns 1) and removes it from the queue,
  and the remote service has received no call at all. The \<^verbatim>\<open>default\<close> branch beside
  it does throw: an item of an unknown collection is a failure.
\<close>

theorem unsent_item_counted_as_synced:
  "fst (getSyncQueue registeredOffline 1)
     = [\<lparr>id_item = ''1'', action = Create, collection = ''users'',
         data_item = JObj [(''userId'', JStr ''u1''), (''profile'', JObj annProfile)],
         timestamp_item = 0, retryCount = 0\<rparr>]
   \<and> fst (syncPendingData registeredOffline True (Some acceptAll) 1 []) = 1
   \<and> snd (snd (syncPendingData registeredOffline True (Some acceptAll) 1 [])) = []
   \<and> fst (getSyncQueue (fst (snd (syncPendingData registeredOffline True (Some acceptAll) 1 []))) 2)
       = []
   \<and> executeSyncItem unsupportedItem (Some acceptAll) [] = (Inl (UnsupportedCollection ''goals''), [])"
  by (simp add: registeredOffline_def addToSyncQueue_def getSyncQueue_def get_def readEntry_def
      storeWith_def SYNC_QUEUE_KEY_def PREFIX_def syncPendingData_def set_cached_def
      executeSyncItem_def remoteWrite_def acceptAll_def settle_def unsupportedItem_def Let_def)

section \<open>The application shell: lemmas\<close>

lemma cacheWeatherData_get:
  assumes "\<forall>c. key \<noteq> ''weather_'' @ c"
  shows "fst (get (cacheWeatherData s city w now) key t) = fst (get s key t)"
  using assms by (simp add: cacheWeatherData_def get_after_set_other)

lemma reloadWeather_fields [simp]:
  "user (reloadWeather a ws u old now) = user a"
  "remoteLog (reloadWeather a ws u old now) = remoteLog a"
  "notifications (reloadWeather a ws u old now) = notifications a"
  "sessions (reloadWeather a ws u old now) = sessions a"
  by (auto simp: reloadWeather_def split: option.splits jsval.splits response.splits)

lemma reloadWeather_get:
  assumes "\<forall>c. key \<noteq> ''weather_'' @ c"
  shows "fst (get (storage (reloadWeather a ws u old now)) key t) = fst (get (storage a) key t)"
  using assms
  by (auto simp: reloadWeather_def cacheWeatherData_get
           split: option.splits jsval.splits response.splits)

text \<open>
  The offline write path on a store that takes writes. Let a user be signed in with a
  non-empty \<^verbatim>\<open>uid\<close>, let the application be
  offline (\<open>isOnline\<close> false) and let the store take writes (the persistent store works,
  or the in-memory map is in use from the start). Then after
  \<^verbatim>\<open>handleUserUpdate(updatedUser)\<close>, for every profile, remote service and weather
  service: the profile shown and the profile read back from the cache are the updated
  one; the remote data service has received no call; the sync queue, read at any time
  after, is the queue before with exactly one item appended at its tail, of action \<^verbatim>\<open>update\<close>, collection
  \<^verbatim>\<open>users\<close>, \<open>retryCount = 0\<close> and the payload \<^verbatim>\<open>{ userId, profile }\<close>; and no
  warning is shown, that is the save counts as successful.
\<close>

lemma offline_profile_save:
  assumes auth: "authUser app = Some uid"
    and uid: "uid \<noteq> []"
    and off: "\<not> isOnline app"
    and persist: "\<not> (isStorageAvailable (storage app) \<and> setItemThrows (storage app))"
    and app': "app' = handleUserUpdate app fs ws updatedUser newId now"
  shows "user app' = JObj updatedUser
    \<and> fst (getCachedUserProfile (storage app') uid now) = JObj updatedUser
    \<and> remoteLog app' = remoteLog app
    \<and> fst (getSyncQueue (storage app') t)
        = fst (getSyncQueue (storage app) now)
          @ [\<lparr>id_item = newId, action = Update, collection = ''users'',
               data_item = JObj [(''userId'', JStr uid), (''profile'', JObj updatedUser)],
               timestamp_item = now, retryCount = 0\<rparr>]
    \<and> notifications app' = notifications app"
proof -
  define kp where "kp = ''user_profile_'' @ uid"
  define s1 where
    "s1 = snd (set_cached (storage app) kp (Some (Val (JObj updatedUser))) (Some 48) now)"
  define item where "item = \<lparr>id_item = newId, action = Update, collection = ''users'',
               data_item = JObj [(''userId'', JStr uid), (''profile'', JObj updatedUser)],
               timestamp_item = now, retryCount = 0\<rparr>"
  define s2 where "s2 = snd (set_cached (snd (getSyncQueue s1 now)) SYNC_QUEUE_KEY
                               (Some (QueueVal (fst (getSyncQueue s1 now) @ [item]))) None now)"
  have kpne: "kp \<noteq> []" and kpq: "kp \<noteq> SYNC_QUEUE_KEY" "SYNC_QUEUE_KEY \<noteq> kp"
    and kpw: "\<forall>c. kp \<noteq> ''weather_'' @ c" and qw: "\<forall>c. SYNC_QUEUE_KEY \<noteq> ''weather_'' @ c"
    by (simp_all add: kp_def SYNC_QUEUE_KEY_def)
  have c1: "cacheUserProfile (storage app) uid (JObj updatedUser) now = s1"
    using uid by (simp add: cacheUserProfile_def s1_def kp_def)
  have c2: "addToSyncQueue s1 Update ''users''
              (JObj [(''userId'', JStr uid), (''profile'', JObj updatedUser)]) newId now = s2"
    by (simp add: addToSyncQueue_def s2_def item_def case_prod_beta)
  have eq: "app' = reloadWeather (app\<lparr>user := JObj updatedUser, storage := s2\<rparr>)
                     ws updatedUser (user app) now"
    using auth off by (simp add: app' handleUserUpdate_def c1 c2 Let_def)
  have p1: "\<not> (isStorageAvailable s1 \<and> setItemThrows s1)"
    using persist by (simp add: s1_def)
  have p1': "\<not> (isStorageAvailable (snd (getSyncQueue s1 now))
                  \<and> setItemThrows (snd (getSyncQueue s1 now)))"
    using p1 by simp
  have q1: "fst (getSyncQueue s1 now) = fst (getSyncQueue (storage app) now)"
    using kpq by (simp add: getSyncQueue_fst s1_def get_after_set_other)
  have q2: "fst (getSyncQueue s2 t) = fst (getSyncQueue (storage app) now) @ [item]"
    unfolding s2_def using getSyncQueue_set [OF p1'] q1 by simp
  have "fst (get s2 kp now) = fst (get (snd (getSyncQueue s1 now)) kp now)"
    unfolding s2_def using kpq by (simp add: get_after_set_other)
  also have "\<dots> = fst (get s1 kp now)"
    by (simp add: getSyncQueue_snd get_get)
  also have "\<dots> = Val (JObj updatedUser)"
    using get_set_same(2) [OF kpne persist, of "Some 48" "Val (JObj updatedUser)" now]
    by (simp add: s1_def)
  finally have g2: "fst (get s2 kp now) = Val (JObj updatedUser)" .
  have u: "fst (getCachedUserProfile (storage app') uid now) = JObj updatedUser"
    using uid g2 reloadWeather_get [OF kpw, of "app\<lparr>user := JObj updatedUser, storage := s2\<rparr>"]
    by (simp add: getCachedUserProfile_def eq case_prod_beta kp_def)
  have q: "fst (getSyncQueue (storage app') t) = fst (getSyncQueue (storage app) now) @ [item]"
    using q2 reloadWeather_get [OF qw, of "app\<lparr>user := JObj updatedUser, storage := s2\<rparr>"]
    by (simp add: getSyncQueue_fst eq)
  show ?thesis using u q by (simp add: eq item_def)
qed

lemma offline_profile_save_example:
  "fst (getCachedUserProfile
          (storage (handleUserUpdate (annApp\<lparr>isOnline := False\<rparr>) rejectAll sunnyWeather
                      [(''name'', JStr ''Ann''), (''weight'', JNum 71), (''city'', JStr ''Nice'')]
                      ''7'' 5)) ''u1'' 5)
     = JObj [(''name'', JStr ''Ann''), (''weight'', JNum 71), (''city'', JStr ''Nice'')]
   \<and> remoteLog (handleUserUpdate (annApp\<lparr>isOnline := False\<rparr>) rejectAll sunnyWeather
                   [(''name'', JStr ''Ann''), (''weight'', JNum 71), (''city'', JStr ''Nice'')]
                   ''7'' 5) = []
   \<and> fst (getSyncQueue
          (storage (handleUserUpdate (annApp\<lparr>isOnline := False\<rparr>) rejectAll sunnyWeather
                      [(''name'', JStr ''Ann''), (''weight'', JNum 71), (''city'', JStr ''Nice'')]
                      ''7'' 5)) 9)
     = [\<lparr>id_item = ''7'', action = Update, collection = ''users'',
         data_item = JObj [(''userId'', JStr ''u1''),
                           (''profile'', JObj [(''name'', JStr ''Ann''), (''weight'', JNum 71),
                                               (''city'', JStr ''Nice'')])],
         timestamp_item = 5, retryCount = 0\<rparr>]"
proof -
  have auth: "authUser (annApp\<lparr>isOnline := False\<rparr>) = Some ''u1''" by (simp add: annApp_def)
  have uid: "''u1'' \<noteq> []" by simp
  have off: "\<not> isOnline (annApp\<lparr>isOnline := False\<rparr>)" by simp
  have persist: "\<not> (isStorageAvailable (storage (annApp\<lparr>isOnline := False\<rparr>))
                     \<and> setItemThrows (storage (annApp\<lparr>isOnline := False\<rparr>)))"
    by (simp add: annApp_def)
  have q0: "fst (getSyncQueue (storage (annApp\<lparr>isOnline := False\<rparr>)) 5) = []"
    by (simp add: annApp_def getSyncQueue_def get_def readEntry_def SYNC_QUEUE_KEY_def PREFIX_def)
  have l0: "remoteLog (annApp\<lparr>isOnline := False\<rparr>) = []" by (simp add: annApp_def)
  show ?thesis
    using offline_profile_save [OF auth uid off persist refl, where fs = rejectAll
        and ws = sunnyWeather and newId = "''7''" and now = 5 and t = 9
        and updatedUser = "[(''name'', JStr ''Ann''), (''weight'', JNum 71), (''city'', JStr ''Nice'')]"]
      q0 l0
    by simp
qed

section \<open>The application shell: claims\<close>

text \<open>
  Claim C4, at an input the application can be in. The application is offline and the
  persistent store, found available at start, now refuses every write (its quota is
  used up). \<^verbatim>\<open>handleUserUpdate\<close> shows the updated profile, and both of its writes,
  \<^verbatim>\<open>cacheUserProfile\<close> and \<^verbatim>\<open>addToSyncQueue\<close>, go through \<^verbatim>\<open>set\<close>, whose
  \<^verbatim>\<open>catch\<close> block puts them in the in-memory map that no read looks at while
  \<open>isStorageAvailable\<close> is true. So the cached profile read back is still the old one,
  the sync queue read back is empty, and no warning is shown: the cache entry is not
  updated and no item is appended. On a store that takes writes the claim holds (lemma
  \<open>offline_profile_save\<close>).
\<close>

theorem offline_save_lost_on_full_store:
  "fst (getCachedUserProfile (storage offlineFullApp) ''u1'' 5) = JObj annProfile
   \<and> user (handleUserUpdate offlineFullApp rejectAll defaultWeather
             [(''name'', JStr ''Ann''), (''weight'', JNum 71), (''city'', JStr ''Lyon'')] ''7'' 5)
       = JObj [(''name'', JStr ''Ann''), (''weight'', JNum 71), (''city'', JStr ''Lyon'')]
   \<and> fst (getCachedUserProfile
            (storage (handleUserUpdate offlineFullApp rejectAll defaultWeather
                        [(''name'', JStr ''Ann''), (''weight'', JNum 71), (''city'', JStr ''Lyon'')]
                        ''7'' 5)) ''u1'' 5)
       = JObj annProfile
   \<and> fst (getSyncQueue
            (storage (handleUserUpdate offlineFullApp rejectAll defaultWeather
                        [(''name'', JStr ''Ann''), (''weight'', JNum 71), (''city'', JStr ''Lyon'')]
                        ''7'' 5)) 5)
       = []
   \<and> notifications (handleUserUpdate offlineFullApp rejectAll defaultWeather
             [(''name'', JStr ''Ann''), (''weight'', JNum 71), (''city'', JStr ''Lyon'')] ''7'' 5)
       = []"
  by (simp add: handleUserUpdate_def reloadWeather_def cacheUserProfile_def addToSyncQueue_def
      getCachedUserProfile_def getSyncQueue_def get_def set_cached_def readEntry_def
      offlineFullApp_def annApp_def annProfile_def PREFIX_def SYNC_QUEUE_KEY_def Let_def)

text \<open>
  Claim C5, at the input the repository's own remote service gives. The cache holds the
  profile and one session of the user, and the remote cannot be reached, so every read of
  \<^verbatim>\<open>FirestoreService\<close> resolves with its failure value. The load resolves and the
  cached profile is kept and shown, as the claim says. The sessions are not kept: in
  \<^verbatim>\<open>freshData[1] || userSessions || []\<close> the failure value \<^verbatim>\<open>[]\<close> of
  \<^verbatim>\<open>getUserSessions\<close> is truthy, so it is taken in place of the cached sessions,
  shown, and written over them by \<^verbatim>\<open>cacheSessions\<close>.
\<close>

theorem failed_read_overwrites_cached_sessions:
  "fst (getCachedSessions (storage sessionsApp) ''u1'' 5) = JArr [walkSession]
   \<and> sessions sessionsApp = [walkSession]
   \<and> fst (loadUserData sessionsApp unreachableFirestore defaultWeather ''u1'' 5) = Inr ()
   \<and> user (snd (loadUserData sessionsApp unreachableFirestore defaultWeather ''u1'' 5))
       = JObj annProfile
   \<and> sessions (snd (loadUserData sessionsApp unreachableFirestore defaultWeather ''u1'' 5)) = []
   \<and> fst (getCachedSessions
            (storage (snd (loadUserData sessionsApp unreachableFirestore defaultWeather ''u1'' 5)))
            ''u1'' 5)
       = JArr []"
  by (simp add: loadUserData_def loadRest_def loadShow_def cityOf_def elems_def
      cacheUserProfile_def cacheSessions_def cacheStats_def cacheWeatherData_def
      getCachedUserProfile_def getCachedSessions_def getCachedStats_def getCachedWeatherData_def
      get_def set_cached_def readEntry_def lowerAscii_def
      sessionsApp_def annApp_def annProfile_def unreachableFirestore_def defaultWeather_def
      PREFIX_def Let_def)

text \<open>
  Claim C6, at two inputs the application produces, each starting from a state in which
  the cache and the state shown agree. First, a weight entry: after
  \<^verbatim>\<open>handleWeightUpdate(72)\<close> the profile shown has weight 72 and the cached profile
  still has weight 70, since the handler never calls the storage service. Second, a
  completed session while online whose remote write is rejected: the session is shown
  first in \<open>sessions\<close>, nothing is cached under the sessions key and nothing is queued.
\<close>

theorem cache_and_shown_state_disagree:
  "fst (getCachedUserProfile (storage annApp) ''u1'' 5) = user annApp
   \<and> user (handleWeightUpdate annApp acceptAll 72)
       = JObj [(''name'', JStr ''Ann''), (''weight'', JNum 72), (''city'', JStr ''Lyon'')]
   \<and> fst (getCachedUserProfile (storage (handleWeightUpdate annApp acceptAll 72)) ''u1'' 5)
       = JObj [(''name'', JStr ''Ann''), (''weight'', JNum 70), (''city'', JStr ''Lyon'')]
   \<and> sessions annApp = []
   \<and> fst (getCachedSessions (storage annApp) ''u1'' 5) = JNull
   \<and> sessions (handleActivityComplete annApp rejectAll noWeather walkPlan None None None ''7'' 5)
       = [JObj (sessionProps ''u1'' walkPlan (weather annApp) None None None 5)]
   \<and> fst (getCachedSessions
            (storage (handleActivityComplete annApp rejectAll noWeather walkPlan None None None
                        ''7'' 5)) ''u1'' 5) = JNull
   \<and> fst (getSyncQueue
            (storage (handleActivityComplete annApp rejectAll noWeather walkPlan None None None
                        ''7'' 5)) 5) = []"
  by (simp add: handleWeightUpdate_def handleActivityComplete_def getCachedUserProfile_def
      getCachedSessions_def getSyncQueue_def get_def readEntry_def annApp_def annProfile_def
      acceptAll_def rejectAll_def PREFIX_def SYNC_QUEUE_KEY_def Let_def)

section \<open>Overlapping passes: lemmas\<close>

text \<open>
  A task that runs alone: from the \<^verbatim>\<open>await\<close> of an item, one turn for it and one
  for each item left in the snapshot complete the loop of \<^verbatim>\<open>syncPendingData\<close> and
  write the remaining queue.
\<close>

lemma resume_alone:
  "runSchedule online svc (replicate (Suc (length rest)) (0, now))
     ([Awaiting item outcome rest n rem], s, log)
   = (case syncLoop svc rest (fst (settle item outcome n rem)) (snd (settle item outcome n rem)) log of
        (n', rem', log') \<Rightarrow>
          ([Returned n'], snd (set_cached s SYNC_QUEUE_KEY (Some (QueueVal rem')) None now), log'))"
proof (induction rest arbitrary: item outcome n rem log)
  case Nil
  then show ?case
    by (simp add: stepTask_def drainResume_def case_prod_beta)
next
  case (Cons item' rest')
  show ?case
    using Cons [of item' "fst (executeSyncItem item' svc log)" "fst (settle item outcome n rem)"
        "snd (settle item outcome n rem)" "snd (executeSyncItem item' svc log)"]
    by (simp add: stepTask_def drainResume_def case_prod_beta Let_def)
qed

text \<open>
  The suspended task agrees with the function: a single task, given a turn to start and
  a turn for each item of the queue, ends with the count, the service and the remote
  calls of \<^verbatim>\<open>syncPendingData\<close>.
\<close>

lemma drain_alone:
  "runSchedule online svc (replicate (Suc (length (fst (getSyncQueue s now)))) (0, now))
     ([NotStarted], s, log)
   = (case syncPendingData s online svc now log of (n, s', log') \<Rightarrow> ([Returned n], s', log'))"
proof (cases online)
  case False
  have idle: "runSchedule online svc (replicate k (0, now)) ([Returned m], w)
              = ([Returned m], w)" for k m w
    by (induction k) (simp_all add: stepTask_def)
  show ?thesis
    using False idle by (simp add: stepTask_def drainStart_def syncPendingData_def)
next
  case True
  obtain q s1 where g: "getSyncQueue s now = (q, s1)" by (cases "getSyncQueue s now")
  show ?thesis
  proof (cases q)
    case Nil
    then show ?thesis
      using True g by (simp add: stepTask_def drainStart_def syncPendingData_def)
  next
    case (Cons item rest)
    have "runSchedule online svc (replicate (Suc (length rest)) (0, now))
            ([Awaiting item (fst (executeSyncItem item svc log)) rest 0 []], s1,
             snd (executeSyncItem item svc log))
          = (case syncPendingData s online svc now log of
               (n, s', log') \<Rightarrow> ([Returned n], s', log'))"
      unfolding resume_alone
      using True g Cons by (simp add: syncPendingData_def case_prod_beta Let_def)
    then show ?thesis
      using True g Cons by (simp add: stepTask_def drainStart_def case_prod_beta Let_def)
  qed
qed

text \<open>The loop against a remote service that accepts every write.\<close>

lemma syncLoop_all_accepted:
  assumes "\<forall>lg c. f lg c \<noteq> Rejected"
  shows "syncLoop (Some f) queue n rem log =
          (n + length (filter (\<lambda>i. \<not> isl (remoteWrite i)) queue),
           rem @ map (\<lambda>i. i\<lparr>retryCount := retryCount i + 1\<rparr>)
                     (filter (\<lambda>i. isl (remoteWrite i) \<and> retryCount i + 1 < 3) queue),
           log @ writesOf queue)"
proof (induction queue arbitrary: n rem log)
  case Nil
  then show ?case by simp
next
  case (Cons item rest)
  show ?case
  proof (cases "remoteWrite item")
    case (Inl e)
    then have "executeSyncItem item (Some f) log = (Inl e, log)"
      by (simp add: executeSyncItem_def)
    then show ?thesis using Inl Cons by (simp add: settle_def Let_def)
  next
    case (Inr w)
    show ?thesis
    proof (cases w)
      case None
      then have "executeSyncItem item (Some f) log = (Inr (), log)"
        using Inr by (simp add: executeSyncItem_def)
      then show ?thesis using Inr None Cons by (simp add: settle_def)
    next
      case (Some c)
      obtain v where "f log c = Resolved v"
        using assms by (cases "f log c") auto
      then have "executeSyncItem item (Some f) log = (Inr (), log @ [c])"
        using Inr Some by (simp add: executeSyncItem_def)
      then show ?thesis using Inr Some Cons by (simp add: settle_def)
    qed
  qed
qed

lemma writesOf_thrown:
  "\<forall>i\<in>set q. isl (remoteWrite i) \<Longrightarrow> writesOf q = []"
  by (induction q) (auto split: sum.splits)

lemma drain_pass_all_accepted:
  assumes persist: "\<not> (isStorageAvailable s \<and> setItemThrows s)"
    and accept: "\<forall>lg c. f lg c \<noteq> Rejected"
  shows "fst (syncPendingData s True (Some f) now log)
         = length (filter (\<lambda>i. \<not> isl (remoteWrite i)) (fst (getSyncQueue s now)))"
    and "fst (getSyncQueue (fst (snd (syncPendingData s True (Some f) now log))) t)
         = map (\<lambda>i. i\<lparr>retryCount := retryCount i + 1\<rparr>)
               (filter (\<lambda>i. isl (remoteWrite i) \<and> retryCount i + 1 < 3)
                  (fst (getSyncQueue s now)))"
    and "snd (snd (syncPendingData s True (Some f) now log))
         = log @ writesOf (fst (getSyncQueue s now))"
    and "\<not> (isStorageAvailable (fst (snd (syncPendingData s True (Some f) now log)))
            \<and> setItemThrows (fst (snd (syncPendingData s True (Some f) now log))))"
proof -
  obtain q s1 where g: "getSyncQueue s now = (q, s1)" by (cases "getSyncQueue s now")
  have fl: "isStorageAvailable s1 = isStorageAvailable s" "setItemThrows s1 = setItemThrows s"
    using getSyncQueue_flags [of s now] g by simp_all
  have p1: "\<not> (isStorageAvailable s1 \<and> setItemThrows s1)"
    using persist fl by simp
  note loop = syncLoop_all_accepted [OF accept, of q 0 "[]" log]
  have e: "q = [] \<Longrightarrow> fst (getSyncQueue s1 t) = []"
    using getSyncQueue_empty_again [of s now t] g by simp
  show "fst (syncPendingData s True (Some f) now log)
         = length (filter (\<lambda>i. \<not> isl (remoteWrite i)) (fst (getSyncQueue s now)))"
    by (simp add: syncPendingData_def g loop)
  show "fst (getSyncQueue (fst (snd (syncPendingData s True (Some f) now log))) t)
         = map (\<lambda>i. i\<lparr>retryCount := retryCount i + 1\<rparr>)
               (filter (\<lambda>i. isl (remoteWrite i) \<and> retryCount i + 1 < 3)
                  (fst (getSyncQueue s now)))"
    using e by (simp add: syncPendingData_def g loop getSyncQueue_set [OF p1])
  show "snd (snd (syncPendingData s True (Some f) now log))
         = log @ writesOf (fst (getSyncQueue s now))"
    by (simp add: syncPendingData_def g loop)
  show "\<not> (isStorageAvailable (fst (snd (syncPendingData s True (Some f) now log)))
            \<and> setItemThrows (fst (snd (syncPendingData s True (Some f) now log))))"
    using persist by (simp add: syncPendingData_def g loop fl)
qed

section \<open>Overlapping passes: claims\<close>

text \<open>
  Claim C9, as stated, fails: nothing keeps a second pass from starting while the first
  is suspended. With one queued session and a remote that accepts every write, let a
  first pass start (turn of task 0 at time 1), a second start while the first awaits its
  write (task 1 at time 2), and both resume. The second pass takes its snapshot before
  the first has replaced the queue, so the remote receives the write of the same item
  twice, and each pass returns 1.
\<close>

theorem overlapping_drains_counterexample:
  "fst (runSchedule True (Some acceptAll) [(0, 1), (1, 2), (0, 3), (1, 4)]
          ([NotStarted, NotStarted], storeWith [sessionItem], []))
     = [Returned 1, Returned 1]
   \<and> snd (snd (runSchedule True (Some acceptAll) [(0, 1), (1, 2), (0, 3), (1, 4)]
          ([NotStarted, NotStarted], storeWith [sessionItem], [])))
     = [AddActivitySession (data_item sessionItem), AddActivitySession (data_item sessionItem)]
   \<and> writesOf [sessionItem] = [AddActivitySession (data_item sessionItem)]"
  by (simp add: stepTask_def drainStart_def drainResume_def getSyncQueue_def get_def readEntry_def
      storeWith_def SYNC_QUEUE_KEY_def PREFIX_def set_cached_def executeSyncItem_def
      remoteWrite_def sessionItem_def acceptAll_def settle_def Let_def)

text \<open>
  Claim C9, amended. The reconciler has no guard against overlapping passes; what holds
  is the property of passes that do not overlap. On a store that takes writes and with a
  remote service that accepts every write, a pass while online sends the write of each
  queued item once, in queue order, and a second pass called after the first has
  returned sends nothing and returns 0: no item is applied twice.
\<close>

theorem sequential_drains_apply_once:
  assumes persist: "\<not> (isStorageAvailable s \<and> setItemThrows s)"
    and accept: "\<forall>lg c. f lg c \<noteq> Rejected"
  shows "snd (drains (Some f) [t1] (s, log)) = log @ writesOf (fst (getSyncQueue s t1))
    \<and> fst (syncPendingData (fst (drains (Some f) [t1] (s, log))) True (Some f) t2
              (snd (drains (Some f) [t1] (s, log)))) = 0
    \<and> snd (drains (Some f) [t1, t2] (s, log)) = snd (drains (Some f) [t1] (s, log))"
proof -
  define w1 where "w1 = snd (syncPendingData s True (Some f) t1 log)"
  note first = drain_pass_all_accepted [OF persist accept, of t1 log]
  have q1: "fst (getSyncQueue (fst w1) t2)
            = map (\<lambda>i. i\<lparr>retryCount := retryCount i + 1\<rparr>)
                  (filter (\<lambda>i. isl (remoteWrite i) \<and> retryCount i + 1 < 3)
                     (fst (getSyncQueue s t1)))"
    unfolding w1_def using first(2) [of t2] by simp
  have thrown: "\<forall>i\<in>set (fst (getSyncQueue (fst w1) t2)). isl (remoteWrite i)"
    unfolding q1 by simp
  have p1: "\<not> (isStorageAvailable (fst w1) \<and> setItemThrows (fst w1))"
    unfolding w1_def using first(4) by simp
  note second = drain_pass_all_accepted [OF p1 accept, of t2 "snd w1"]
  have none: "filter (\<lambda>i. \<not> isl (remoteWrite i)) (fst (getSyncQueue (fst w1) t2)) = []"
    using thrown by (simp add: filter_empty_conv)
  have n2: "fst (syncPendingData (fst w1) True (Some f) t2 (snd w1)) = 0"
    using second(1) none by simp
  have l2: "snd (snd (syncPendingData (fst w1) True (Some f) t2 (snd w1))) = snd w1"
    using second(3) writesOf_thrown [OF thrown] by simp
  have l1: "snd w1 = log @ writesOf (fst (getSyncQueue s t1))"
    unfolding w1_def using first(3) by simp
  show ?thesis
    using l1 n2 l2 by (simp add: w1_def)
qed

theorem sequential_drains_apply_once_witness:
  "snd (drains (Some acceptAll) [1] (storeWith [sessionItem], []))
     = [AddActivitySession (data_item sessionItem)]
   \<and> snd (drains (Some acceptAll) [1, 2] (storeWith [sessionItem], []))
     = [AddActivitySession (data_item sessionItem)]"
proof -
  have persist: "\<not> (isStorageAvailable (storeWith [sessionItem])
                     \<and> setItemThrows (storeWith [sessionItem]))"
    by (simp add: storeWith_def)
  have accept: "\<forall>lg c. acceptAll lg c \<noteq> Rejected" by (simp add: acceptAll_def)
  have w: "writesOf (fst (getSyncQueue (storeWith [sessionItem]) 1))
           = [AddActivitySession (data_item sessionItem)]"
    by (simp add: getSyncQueue_storeWith remoteWrite_def sessionItem_def)
  show ?thesis
    using sequential_drains_apply_once [OF persist accept, of 1 "[]" 2] w
    by (simp del: drains.simps)
qed

end
